theory Spec2Isabelle
  imports Main
begin

section \<open>EMR Containers Step Functions tasks: the task-state compiler\<close>

text \<open>
  A shallow embedding of \<^verbatim>\<open>EmrContainersStartJobRun\<close> (validation in the constructor,
  \<^verbatim>\<open>_renderTask\<close>, \<^verbatim>\<open>createPolicyStatements\<close>) and of
  \<^verbatim>\<open>EmrContainersCreateVirtualCluster\<close>. A thrown \<^verbatim>\<open>Error\<close> is a value of type
  \<open>error\<close>; a check is an \<open>error option\<close> (\<open>Some e\<close>: the check throws \<open>e\<close>), a fallible
  computation is an \<open>error + 'a\<close>.
\<close>

subsection \<open>JavaScript values\<close>

text \<open>
  \<^verbatim>\<open>TaskInput.value\<close> has type \<^verbatim>\<open>any\<close>. The values that occur are strings, booleans,
  arrays, plain objects and \<^verbatim>\<open>undefined\<close>. A plain object is the list of its own
  enumerable properties in the order \<^verbatim>\<open>Object.keys\<close> lists them.

  A runtime-resolved reference (\<^verbatim>\<open>JsonPath.stringAt('$.x')\<close>,
  \<^verbatim>\<open>TaskInput.fromJsonPathAt('$.x')\<close>) is, in JavaScript, a string: an opaque token that
  stands for the path. \<open>JsonPathToken tok p\<close> is that string, with text \<open>tok\<close>, standing
  for the path \<open>p\<close>.
\<close>

datatype jsvalue =
    JUndefined
  | JBool bool
  | JString string
  | JsonPathToken string string
  | JArray "jsvalue list"
  | JObject "(string \<times> jsvalue) list"

text \<open>
  Modelled from the spec: \<^verbatim>\<open>sfn.JsonPath.isEncodedJsonPath\<close> belongs to the
  \<^verbatim>\<open>aws-stepfunctions\<close> package, which is not among the sources. The spec's data model has
  every field either a literal value or a runtime-resolved reference (an opaque path);
  the test is true of the reference and of nothing else.
\<close>

fun isEncodedJsonPath :: "jsvalue \<Rightarrow> bool" where
  "isEncodedJsonPath (JsonPathToken tok p) = True"
| "isEncodedJsonPath v = False"

text \<open>\<^verbatim>\<open>typeof item === 'string'\<close>: a token is a string too.\<close>

fun typeof_string :: "jsvalue \<Rightarrow> bool" where
  "typeof_string (JString s) = True"
| "typeof_string (JsonPathToken tok p) = True"
| "typeof_string v = False"

text \<open>
  \<^verbatim>\<open>v.length\<close>: the number of characters of a string, the number of elements of an
  array, and \<^verbatim>\<open>undefined\<close> otherwise (\<open>None\<close>: a comparison of \<^verbatim>\<open>undefined\<close> with a
  number is false both ways). A plain object given as a task input is taken to have no
  property named \<^verbatim>\<open>length\<close>.
\<close>

fun js_length :: "jsvalue \<Rightarrow> nat option" where
  "js_length (JString s) = Some (length s)"
| "js_length (JsonPathToken tok p) = Some (length tok)"
| "js_length (JArray xs) = Some (length xs)"
| "js_length v = None"

definition length_gt :: "nat option \<Rightarrow> nat \<Rightarrow> bool" where
  "length_gt l n = (case l of None \<Rightarrow> False | Some k \<Rightarrow> k > n)"

definition length_lt :: "nat option \<Rightarrow> nat \<Rightarrow> bool" where
  "length_lt l n = (case l of None \<Rightarrow> False | Some k \<Rightarrow> k < n)"

subsection \<open>The specification (the props)\<close>

datatype IntegrationPattern = REQUEST_RESPONSE | RUN_JOB | WAIT_FOR_TASK_TOKEN

datatype InputType = TEXT | OBJECT

record TaskInput =
  input_type :: InputType
  input_value :: jsvalue

text \<open>
  \<^verbatim>\<open>ApplicationConfiguration\<close>: a classification (the \<^verbatim>\<open>classificationStatement\<close> of
  its \<^verbatim>\<open>Classification\<close>), optional nested configurations, optional properties.
\<close>

datatype ApplicationConfiguration =
  ApplicationConfiguration
    (classification: string)
    (nestedConfig: "ApplicationConfiguration list option")
    (properties: "(string \<times> string) list option")

record SparkSubmitJobDriver =
  entryPoint :: TaskInput
  entryPointArguments :: "TaskInput option"
  sparkSubmitParameters :: "string option"

record JobDriver =
  sparkSubmitJobDriver :: "SparkSubmitJobDriver option"

record ILogGroup =
  logGroupName :: string

record IBucket =
  s3UrlForObject :: string

record Monitoring =
  logging :: "bool option"
  logGroup :: "ILogGroup option"
  logStreamNamePrefix :: "string option"
  logBucket :: "IBucket option"
  persistentAppUI :: "bool option"

text \<open>
  An ARN is kept as the components handed to \<^verbatim>\<open>Stack.formatArn\<close> (a function of the
  \<^verbatim>\<open>core\<close> package); a resource written as a string in the source is a \<open>ResourceString\<close>.
\<close>

record ArnComponents =
  arn_service :: string
  arn_region :: "string option"
  arn_resource :: string
  arn_resourceName :: jsvalue

datatype resource = ResourceString string | FormatArn ArnComponents

record PolicyStatement =
  resources :: "resource list"
  actions :: "string list"
  conditions :: "(string \<times> (string \<times> string) list) list option"

datatype grant = GrantReadWrite IBucket | AddToPrincipalPolicy PolicyStatement

record IRole =
  roleArn :: string
  grants :: "grant list"

record EmrContainersStartJobRunProps =
  integrationPattern :: "IntegrationPattern option"
  virtualClusterId :: TaskInput
  jobName :: "string option"
  executionRole :: "IRole option"
  releaseLabel :: string
  applicationConfig :: "ApplicationConfiguration list option"
  jobDriver :: JobDriver
  monitoring :: "Monitoring option"
  tags :: "(string \<times> string) list option"

subsection \<open>Errors\<close>

text \<open>
  One constructor for each \<^verbatim>\<open>throw\<close> of the source, carrying what the message
  interpolates (\<^verbatim>\<open>value.length\<close> is a number or \<^verbatim>\<open>undefined\<close>). \<open>TypeError\<close> is the
  runtime's own error for a property read on \<^verbatim>\<open>undefined\<close>.
\<close>

datatype error =
    UnsupportedPattern "IntegrationPattern list" IntegrationPattern
  | AppConfigArrayLength nat
  | AppConfigPropertiesLength jsvalue
  | EntryPointLength "nat option"
  | EntryPointArgumentsType InputType
  | EntryPointArgumentsLength "nat option"
  | SparkSubmitParametersLength nat
  | ExecutionRoleUndefined
  | TypeError string

text \<open>The first exception thrown aborts a sequence of statements (or a \<^verbatim>\<open>forEach\<close>).\<close>

fun firstError :: "error option list \<Rightarrow> error option" where
  "firstError [] = None"
| "firstError (None # cs) = firstError cs"
| "firstError (Some e # cs) = Some e"

subsection \<open>The integration-pattern gate\<close>

text \<open>
  Modelled from the spec: \<^verbatim>\<open>validatePatternSupported\<close> lives in
  \<^verbatim>\<open>lib/private/task-utils.ts\<close>, which is not among the sources. Spec 4.1: it fails with
  the unsupported-mode error, listing the supported set and the received value, when the
  mode is not in the supported set; the test of \<^verbatim>\<open>DeleteVirtualCluster\<close> expects the
  message \<^verbatim>\<open>Unsupported service integration pattern. Supported Patterns: ... Received: ...\<close>.
\<close>

definition validatePatternSupported ::
  "IntegrationPattern \<Rightarrow> IntegrationPattern list \<Rightarrow> error option" where
  "validatePatternSupported pattern supportedPatterns =
     (if pattern \<in> set supportedPatterns then None
      else Some (UnsupportedPattern supportedPatterns pattern))"

definition SUPPORTED_INTEGRATION_PATTERNS :: "IntegrationPattern list" where
  "SUPPORTED_INTEGRATION_PATTERNS = [REQUEST_RESPONSE, RUN_JOB]"

subsection \<open>Validation of the application configuration\<close>

text \<open>
  \<^verbatim>\<open>Object.keys(appConfig.properties).length > 100\<close> throws, and the message
  interpolates \<^verbatim>\<open>appConfig.properties.length\<close>: the property named \<^verbatim>\<open>length\<close> of the
  mapping, not the number of its keys.
\<close>

definition validateAppConfigPropertiesLength :: "ApplicationConfiguration \<Rightarrow> error option" where
  "validateAppConfigPropertiesLength appConfig =
     (case properties appConfig of
        None \<Rightarrow> None
      | Some props \<Rightarrow>
          if length (map fst props) > 100
          then Some (AppConfigPropertiesLength
                 (case map_of props ''length'' of None \<Rightarrow> JUndefined | Some v \<Rightarrow> JString v))
          else None)"

function validateAppConfigLength :: "ApplicationConfiguration list option \<Rightarrow> error option" where
  "validateAppConfigLength None = None"
| "validateAppConfigLength (Some config) =
     (if length config > 100 then Some (AppConfigArrayLength (length config))
      else firstError
             (map validateAppConfigPropertiesLength config @
              map (\<lambda>element. validateAppConfigLength (nestedConfig element)) config))"
  by pat_completeness auto
termination
proof (relation "measure (size_option (size_list size))")
  show "wf (measure (size_option (size_list (size :: ApplicationConfiguration \<Rightarrow> nat))))"
    by simp
next
  fix config :: "ApplicationConfiguration list" and element
  assume "element \<in> set (config)"
  then have "size element \<le> size_list size config"
    by (simp add: size_list_estimation')
  moreover have "size_option (size_list size) (nestedConfig element) < size element"
    by (cases element) simp
  ultimately show "(nestedConfig element, Some config) \<in> measure (size_option (size_list size))"
    by simp
qed

subsection \<open>The field checks of the constructor\<close>

text \<open>
  Each definition is one \<^verbatim>\<open>if (...) throw\<close> of the constructor, with the conjuncts in
  the order of the source. A \<^verbatim>\<open>TaskInput\<close> is an object and so always truthy; a string
  is truthy when it is not empty.
\<close>

definition checkApplicationConfig :: "EmrContainersStartJobRunProps \<Rightarrow> error option" where
  "checkApplicationConfig props =
     (if applicationConfig props \<noteq> None
      then validateAppConfigLength (applicationConfig props) else None)"

definition checkEntryPoint :: "EmrContainersStartJobRunProps \<Rightarrow> error option" where
  "checkEntryPoint props =
     (case sparkSubmitJobDriver (jobDriver props) of
        None \<Rightarrow> None
      | Some driver \<Rightarrow>
          let v = input_value (entryPoint driver) in
          if \<not> isEncodedJsonPath v
             \<and> (length_gt (js_length v) 256 \<or> length_lt (js_length v) 1)
          then Some (EntryPointLength (js_length v)) else None)"

definition isArrayOfStrings :: "jsvalue \<Rightarrow> bool" where
  "isArrayOfStrings v = (case v of JArray items \<Rightarrow> list_all typeof_string items | _ \<Rightarrow> False)"

definition checkEntryPointArgumentsType :: "EmrContainersStartJobRunProps \<Rightarrow> error option" where
  "checkEntryPointArgumentsType props =
     (case sparkSubmitJobDriver (jobDriver props) of
        None \<Rightarrow> None
      | Some driver \<Rightarrow>
          (case entryPointArguments driver of
             None \<Rightarrow> None
           | Some args \<Rightarrow>
               if isArrayOfStrings (input_value args) = False
                  \<and> \<not> isEncodedJsonPath (input_value args)
               then Some (EntryPointArgumentsType (input_type args)) else None))"

definition checkEntryPointArgumentsLength :: "EmrContainersStartJobRunProps \<Rightarrow> error option" where
  "checkEntryPointArgumentsLength props =
     (case sparkSubmitJobDriver (jobDriver props) of
        None \<Rightarrow> None
      | Some driver \<Rightarrow>
          (case entryPointArguments driver of
             None \<Rightarrow> None
           | Some args \<Rightarrow>
               let v = input_value args in
               if (length_gt (js_length v) 10280 \<or> length_lt (js_length v) 1)
                  \<and> \<not> isEncodedJsonPath v
               then Some (EntryPointArgumentsLength (js_length v)) else None))"

definition checkSparkSubmitParameters :: "EmrContainersStartJobRunProps \<Rightarrow> error option" where
  "checkSparkSubmitParameters props =
     (case sparkSubmitJobDriver (jobDriver props) of
        None \<Rightarrow> None
      | Some driver \<Rightarrow>
          (case sparkSubmitParameters driver of
             None \<Rightarrow> None
           | Some s \<Rightarrow>
               if s \<noteq> [] \<and> (length s > 102400 \<or> length s < 1)
               then Some (SparkSubmitParametersLength (length s)) else None))"

definition checkExecutionRole :: "EmrContainersStartJobRunProps \<Rightarrow> error option" where
  "checkExecutionRole props =
     (if executionRole props = None \<and> isEncodedJsonPath (input_value (virtualClusterId props))
      then Some ExecutionRoleUndefined else None)"

text \<open>\<^verbatim>\<open>props.integrationPattern ?? sfn.IntegrationPattern.RUN_JOB\<close>\<close>

definition patternOf :: "EmrContainersStartJobRunProps \<Rightarrow> IntegrationPattern" where
  "patternOf props = (case integrationPattern props of None \<Rightarrow> RUN_JOB | Some p \<Rightarrow> p)"

text \<open>The checks in the order the constructor runs them: the gate, then the fields.\<close>

definition validation :: "EmrContainersStartJobRunProps \<Rightarrow> error option" where
  "validation props =
     firstError
       [validatePatternSupported (patternOf props) SUPPORTED_INTEGRATION_PATTERNS,
        checkApplicationConfig props,
        checkEntryPoint props,
        checkEntryPointArgumentsType props,
        checkEntryPointArgumentsLength props,
        checkSparkSubmitParameters props,
        checkExecutionRole props]"

subsection \<open>The policy deriver\<close>

text \<open>The task object, with the fields the constructor assigns.\<close>

record EmrContainersStartJobRun =
  props :: EmrContainersStartJobRunProps
  this_integrationPattern :: IntegrationPattern
  this_logGroup :: "ILogGroup option"
  this_logBucket :: "IBucket option"
  role :: IRole
  taskPolicies :: "PolicyStatement list"

text \<open>
  The conversion of a value to a string inside a template literal
  (\<^verbatim>\<open>`${value}/jobruns/*`\<close>): \<^verbatim>\<open>Array.prototype.join\<close> writes \<^verbatim>\<open>undefined\<close> as the empty
  string.
\<close>

fun joinWith :: "string \<Rightarrow> string list \<Rightarrow> string" where
  "joinWith sep [] = []"
| "joinWith sep [x] = x"
| "joinWith sep (x # y # ys) = x @ sep @ joinWith sep (y # ys)"

fun js_toString :: "jsvalue \<Rightarrow> string" where
  "js_toString JUndefined = ''undefined''"
| "js_toString (JBool b) = (if b then ''true'' else ''false'')"
| "js_toString (JString s) = s"
| "js_toString (JsonPathToken tok p) = tok"
| "js_toString (JArray xs) =
     joinWith '','' (map (\<lambda>x. if x = JUndefined then [] else js_toString x) xs)"
| "js_toString (JObject kvs) = ''[object Object]''"

definition virtualClustersArn :: "jsvalue \<Rightarrow> resource" where
  "virtualClustersArn name =
     FormatArn \<lparr>arn_service = ''emr-containers'', arn_region = None,
                arn_resource = ''/virtualclusters'', arn_resourceName = name\<rparr>"

definition createPolicyStatements :: "EmrContainersStartJobRun \<Rightarrow> PolicyStatement list" where
  "createPolicyStatements this =
     (let v = input_value (virtualClusterId (props this));
          policyStatements =
            [\<lparr>resources = [virtualClustersArn (if isEncodedJsonPath v then JString ''*'' else v)],
              actions = [''emr-containers:StartJobRun''],
              conditions =
                Some [(''StringEquals'',
                       [(''emr-containers:ExecutionRoleArn'', roleArn (role this))])]\<rparr>]
      in if this_integrationPattern this = RUN_JOB
         then policyStatements @
            [\<lparr>resources =
                [virtualClustersArn
                   (if isEncodedJsonPath v then JString ''*''
                    else JString (js_toString v @ ''/jobruns/*''))],
              actions = [''emr-containers:DescribeJobRun'', ''emr-containers:CancelJobRun''],
              conditions = None\<rparr>]
         else policyStatements)"

subsection \<open>The constructor\<close>

text \<open>
  \<^verbatim>\<open>this.props.monitoring?.logGroup ?? this.props.monitoring?.logging ? new ... : undefined\<close>:
  \<^verbatim>\<open>??\<close> binds tighter than the conditional, so the condition is the log group if there
  is one (an object, truthy) and the \<^verbatim>\<open>logging\<close> flag otherwise, and the value is a new
  construct or \<^verbatim>\<open>undefined\<close>.
\<close>

definition newLogGroup :: ILogGroup where
  "newLogGroup = \<lparr>logGroupName = ''<Monitoring Log Group>''\<rparr>"

definition newBucket :: IBucket where
  "newBucket = \<lparr>s3UrlForObject = ''<Monitoring Bucket>''\<rparr>"

definition newRole :: IRole where
  "newRole = \<lparr>roleArn = ''<Job-Execution-Role>'', grants = []\<rparr>"

definition logGroupOf :: "Monitoring option \<Rightarrow> ILogGroup option" where
  "logGroupOf m =
     (if (case m of None \<Rightarrow> False
          | Some mon \<Rightarrow> (case logGroup mon of Some g \<Rightarrow> True | None \<Rightarrow> logging mon = Some True))
      then Some newLogGroup else None)"

definition logBucketOf :: "Monitoring option \<Rightarrow> IBucket option" where
  "logBucketOf m =
     (if (case m of None \<Rightarrow> False
          | Some mon \<Rightarrow> (case logBucket mon of Some b \<Rightarrow> True | None \<Rightarrow> logging mon = Some True))
      then Some newBucket else None)"

text \<open>
  \<^verbatim>\<open>grantMonitoringPolicies\<close> reads \<^verbatim>\<open>this.role\<close> and \<^verbatim>\<open>this.logBucket\<close>, which are
  passed explicitly; it returns the role with the grants added. With \<^verbatim>\<open>this.role\<close> not
  yet assigned, \<^verbatim>\<open>this.role.addToPrincipalPolicy\<close> is a property read on
  \<^verbatim>\<open>undefined\<close>.
\<close>

definition logsStatement :: PolicyStatement where
  "logsStatement =
     \<lparr>resources = [ResourceString ''arn:aws:logs:*:*:*''],
      actions = [''logs:PutLogEvents'', ''logs:CreateLogStream'',
                 ''logs:DescribeLogGroups'', ''logs:DescribeLogStreams''],
      conditions = None\<rparr>"

definition grantMonitoringPolicies :: "IRole option \<Rightarrow> IBucket option \<Rightarrow> error + IRole" where
  "grantMonitoringPolicies this_role bucket =
     (case this_role of
        None \<Rightarrow> Inl (TypeError ''Cannot read property addToPrincipalPolicy of undefined'')
      | Some r \<Rightarrow>
          Inr (r\<lparr>grants := grants r
                   @ (case bucket of None \<Rightarrow> [] | Some b \<Rightarrow> [GrantReadWrite b])
                   @ [AddToPrincipalPolicy logsStatement]\<rparr>))"

text \<open>
  \<^verbatim>\<open>createJobExecutionRole\<close> makes the role, calls \<^verbatim>\<open>this.grantMonitoringPolicies()\<close>
  (on \<^verbatim>\<open>this.role\<close> as it is then), provisions the trust-policy update (an external
  collaborator, not modelled) and returns the new role.
\<close>

definition createJobExecutionRole :: "IRole option \<Rightarrow> IBucket option \<Rightarrow> error + IRole" where
  "createJobExecutionRole this_role bucket =
     (case grantMonitoringPolicies this_role bucket of
        Inl e \<Rightarrow> Inl e
      | Inr r \<Rightarrow> Inr newRole)"

text \<open>
  The constructor, after the call of the superclass constructor (the wiring into the
  construct tree, not modelled): the checks, then the monitoring resources, then
  \<^verbatim>\<open>this.role = this.props.executionRole ?? this.createJobExecutionRole()\<close> (the right-hand
  side runs while \<^verbatim>\<open>this.role\<close> is still unassigned), the grants, and the policy
  statements.
\<close>

definition newEmrContainersStartJobRun ::
  "EmrContainersStartJobRunProps \<Rightarrow> error + EmrContainersStartJobRun" where
  "newEmrContainersStartJobRun p =
     (case validation p of
        Some e \<Rightarrow> Inl e
      | None \<Rightarrow>
          let lg = logGroupOf (monitoring p); lb = logBucketOf (monitoring p) in
          (case (case executionRole p of
                   Some r \<Rightarrow> Inr r
                 | None \<Rightarrow> createJobExecutionRole None lb) of
             Inl e \<Rightarrow> Inl e
           | Inr r \<Rightarrow>
               (case grantMonitoringPolicies (Some r) lb of
                  Inl e \<Rightarrow> Inl e
                | Inr r' \<Rightarrow>
                    let this = \<lparr>props = p, this_integrationPattern = patternOf p,
                                this_logGroup = lg, this_logBucket = lb, role = r',
                                taskPolicies = []\<rparr>
                    in Inr (this\<lparr>taskPolicies := createPolicyStatements this\<rparr>))))"

subsection \<open>CreateVirtualCluster\<close>

record EmrContainersCreateVirtualClusterProps =
  cvc_integrationPattern :: "IntegrationPattern option"
  eksCluster :: string
  eksNamespace :: "string option"
  virtuaClusterName :: "string option"
  cvc_tags :: "(string \<times> string) list option"

record EmrContainersCreateVirtualCluster =
  cvc_props :: EmrContainersCreateVirtualClusterProps
  cvc_this_integrationPattern :: IntegrationPattern
  cvc_taskPolicies :: "PolicyStatement list"

definition CVC_SUPPORTED_INTEGRATION_PATTERNS :: "IntegrationPattern list" where
  "CVC_SUPPORTED_INTEGRATION_PATTERNS = [REQUEST_RESPONSE]"

definition cvc_createPolicyStatements :: "PolicyStatement list" where
  "cvc_createPolicyStatements =
     [\<lparr>resources = [ResourceString ''*''],
       actions = [''emr-containers:CreateVirtualCluster''],
       conditions = None\<rparr>,
      \<lparr>resources =
         [FormatArn \<lparr>arn_service = ''iam'', arn_region = Some [],
                     arn_resource = ''role/aws-service-role/emr-containers.amazonaws.com'',
                     arn_resourceName = JString ''AWSServiceRoleForAmazonEMRContainers''\<rparr>],
       actions = [''iam:CreateServiceLinkedRole''],
       conditions =
         Some [(''StringLike'', [(''iam:AWSServiceName'', ''emr-containers.amazonaws.com'')])]\<rparr>]"

definition newEmrContainersCreateVirtualCluster ::
  "EmrContainersCreateVirtualClusterProps \<Rightarrow> error + EmrContainersCreateVirtualCluster" where
  "newEmrContainersCreateVirtualCluster p =
     (let pattern = (case cvc_integrationPattern p of None \<Rightarrow> REQUEST_RESPONSE | Some m \<Rightarrow> m) in
      case validatePatternSupported pattern CVC_SUPPORTED_INTEGRATION_PATTERNS of
        Some e \<Rightarrow> Inl e
      | None \<Rightarrow>
          Inr \<lparr>cvc_props = p, cvc_this_integrationPattern = pattern,
               cvc_taskPolicies = cvc_createPolicyStatements\<rparr>)"

subsection \<open>The task renderer\<close>

text \<open>
  Modelled from the spec: \<^verbatim>\<open>integrationResourceArn\<close> lives in
  \<^verbatim>\<open>lib/private/task-utils.ts\<close>, which is not among the sources. Spec 4.3: the resource
  locator is built from the task family, the operation name and the mode, the mode
  appended as a suffix for the synchronous and callback modes and omitted for
  fire-and-forget; the tests expect \<^verbatim>\<open>:states:::emr-containers:deleteVirtualCluster.sync\<close>
  after the partition.
\<close>

definition integrationResourceArn :: "string \<Rightarrow> string \<Rightarrow> IntegrationPattern \<Rightarrow> string" where
  "integrationResourceArn service api pattern =
     ''arn:<partition>:states:::'' @ service @ '':'' @ api @
       (case pattern of
          REQUEST_RESPONSE \<Rightarrow> []
        | RUN_JOB \<Rightarrow> ''.sync''
        | WAIT_FOR_TASK_TOKEN \<Rightarrow> ''.waitForTaskToken'')"

text \<open>
  Modelled from the spec: \<^verbatim>\<open>sfn.FieldUtils.renderObject\<close> belongs to the
  \<^verbatim>\<open>aws-stepfunctions\<close> package, which is not among the sources. Spec 4.3: absent
  (\<^verbatim>\<open>undefined\<close>) fields are omitted from the output; a runtime-resolved reference is
  rendered under the key with the suffix \<^verbatim>\<open>.$\<close> (the tests expect
  \<^verbatim>\<open>'Id.$': '$.VirtualClusterId'\<close>); nested objects are rendered recursively, in order.
\<close>

fun renderEntry :: "string \<times> jsvalue \<Rightarrow> (string \<times> jsvalue) list" where
  "renderEntry (key, JUndefined) = []"
| "renderEntry (key, JsonPathToken tok p) = [(key @ ''.$'', JString p)]"
| "renderEntry (key, v) = [(key, v)]"

primrec renderObject :: "jsvalue \<Rightarrow> jsvalue" where
  "renderObject JUndefined = JUndefined"
| "renderObject (JBool b) = JBool b"
| "renderObject (JString s) = JString s"
| "renderObject (JsonPathToken tok p) = JsonPathToken tok p"
| "renderObject (JArray xs) = JArray (map renderObject xs)"
| "renderObject (JObject kvs) =
     JObject (concat (map renderEntry (map (map_prod id renderObject) kvs)))"

text \<open>
  \<^verbatim>\<open>cdk.listMapper(f)(x)\<close> (of the \<^verbatim>\<open>core\<close> package) returns \<^verbatim>\<open>x\<close> when it is
  \<^verbatim>\<open>undefined\<close> and \<^verbatim>\<open>x.map(f)\<close> otherwise; the first element whose mapping throws
  aborts it. \<^verbatim>\<open>cdk.stringToCloudFormation\<close> and \<^verbatim>\<open>cdk.objectToCloudFormation\<close> return
  their argument.
\<close>

fun collect :: "(error + 'a) list \<Rightarrow> error + 'a list" where
  "collect [] = Inr []"
| "collect (Inl e # rs) = Inl e"
| "collect (Inr x # rs) = (case collect rs of Inl e \<Rightarrow> Inl e | Inr xs \<Rightarrow> Inr (x # xs))"

definition listMapper :: "('a \<Rightarrow> error + jsvalue) \<Rightarrow> 'a list option \<Rightarrow> error + jsvalue" where
  "listMapper elementMapper x =
     (case x of
        None \<Rightarrow> Inr JUndefined
      | Some xs \<Rightarrow>
          (case collect (map elementMapper xs) of Inl e \<Rightarrow> Inl e | Inr ys \<Rightarrow> Inr (JArray ys)))"

text \<open>
  \<^verbatim>\<open>applicationConfigPropertyToJson\<close> is handed to \<^verbatim>\<open>listMapper\<close> as
  \<^verbatim>\<open>this.applicationConfigPropertyToJson\<close>, unbound, and \<^verbatim>\<open>Array.prototype.map\<close> calls it
  as a plain function: inside it \<^verbatim>\<open>this\<close> is \<^verbatim>\<open>undefined\<close> (a class body is strict
  code). The branch for a present \<^verbatim>\<open>nestedConfig\<close> (an array, truthy also when empty)
  reads \<^verbatim>\<open>this.applicationConfigPropertyToJson\<close> and so throws a \<open>TypeError\<close>; the other
  branches do not touch \<^verbatim>\<open>this\<close>.
\<close>

definition stringsToObject :: "(string \<times> string) list \<Rightarrow> jsvalue" where
  "stringsToObject ps = JObject (map (\<lambda>(k, v). (k, JString v)) ps)"

definition applicationConfigPropertyToJson :: "ApplicationConfiguration \<Rightarrow> error + jsvalue" where
  "applicationConfigPropertyToJson property =
     (case nestedConfig property of
        Some nested \<Rightarrow>
          Inl (TypeError ''Cannot read property applicationConfigPropertyToJson of undefined'')
      | None \<Rightarrow>
          Inr (JObject
            [(''Classification'', JString (classification property)),
             (''Properties'',
                case properties property of
                  Some ps \<Rightarrow> stringsToObject ps
                | None \<Rightarrow> JUndefined),
             (''Configurations'', JUndefined)]))"

text \<open>
  \<^verbatim>\<open>renderTags\<close>: \<^verbatim>\<open>Object.keys(tags).map((key) => ({ Key: key, Value: tags[key] }))\<close>
  under the key \<^verbatim>\<open>Tags\<close> of a fresh object. The mapping is the list of its properties;
  \<^verbatim>\<open>tags[key]\<close> looks the key up.
\<close>

definition optString :: "string option \<Rightarrow> jsvalue" where
  "optString s = (case s of None \<Rightarrow> JUndefined | Some x \<Rightarrow> JString x)"

definition renderTags :: "(string \<times> string) list option \<Rightarrow> jsvalue" where
  "renderTags t =
     (case t of
        Some tgs \<Rightarrow>
          JObject
            [(''Tags'',
              JArray (map (\<lambda>key. JObject [(''Key'', JString key),
                                            (''Value'', optString (map_of tgs key))])
                          (map fst tgs)))]
      | None \<Rightarrow> JObject [])"

text \<open>
  \<^verbatim>\<open>_renderTask\<close>. \<open>parametersOf\<close> is the object literal handed to
  \<^verbatim>\<open>FieldUtils.renderObject\<close>, with the value of
  \<^verbatim>\<open>cdk.listMapper(this.applicationConfigPropertyToJson)(this.props.applicationConfig)\<close>
  as its second argument; \<open>renderTask\<close> is the method (a name cannot start with an
  underscore here).
\<close>

definition parametersOf :: "EmrContainersStartJobRun \<Rightarrow> jsvalue \<Rightarrow> jsvalue" where
  "parametersOf this appConfigJson =
     (let p = props this; driver = sparkSubmitJobDriver (jobDriver p) in
      JObject
        [(''VirtualClusterId'', input_value (virtualClusterId p)),
         (''Name'', optString (jobName p)),
         (''ExecutionRoleArn'', JString (roleArn (role this))),
         (''ReleaseLabel'', JString (releaseLabel p)),
         (''JobDriver'',
            JObject
              [(''SparkSubmitJobDriver'',
                  JObject
                    [(''EntryPoint'',
                        case driver of None \<Rightarrow> JUndefined
                        | Some d \<Rightarrow> input_value (entryPoint d)),
                     (''EntryPointArguments'',
                        case driver of None \<Rightarrow> JUndefined
                        | Some d \<Rightarrow>
                            (case entryPointArguments d of None \<Rightarrow> JUndefined
                             | Some a \<Rightarrow> input_value a)),
                     (''SparkSubmitParameters'',
                        case driver of None \<Rightarrow> JUndefined
                        | Some d \<Rightarrow> optString (sparkSubmitParameters d))])]),
         (''ConfigurationOverrides'',
            JObject
              [(''ApplicationConfiguration'', appConfigJson),
               (''MonitoringConfiguration'',
                  JObject
                    [(''CloudWatchMonitoringConfiguration'',
                        case this_logGroup this of
                          Some g \<Rightarrow>
                            JObject
                              [(''LogGroupName'', JString (logGroupName g)),
                               (''LogStreamNamePrefix'',
                                  case monitoring p of None \<Rightarrow> JUndefined
                                  | Some m \<Rightarrow> optString (logStreamNamePrefix m))]
                        | None \<Rightarrow> JUndefined),
                     (''PersistentAppUI'',
                        if (case monitoring p of None \<Rightarrow> False
                            | Some m \<Rightarrow> persistentAppUI m = Some False)
                        then JString ''DISABLED'' else JString ''ENABLED''),
                     (''S3MonitoringConfiguration'',
                        case this_logBucket this of
                          Some b \<Rightarrow> JObject [(''LogUri'', JString (s3UrlForObject b))]
                        | None \<Rightarrow> JUndefined)]),
               (''Tags'',
                  case tags p of Some t \<Rightarrow> renderTags (Some t) | None \<Rightarrow> JUndefined)])])"

definition renderTask :: "EmrContainersStartJobRun \<Rightarrow> error + jsvalue" where
  "renderTask this =
     (case listMapper applicationConfigPropertyToJson (applicationConfig (props this)) of
        Inl e \<Rightarrow> Inl e
      | Inr appConfigJson \<Rightarrow>
          Inr (JObject
            [(''Resource'',
                JString (integrationResourceArn ''emr-containers'' ''startJobRun''
                           (this_integrationPattern this))),
             (''Parameters'', renderObject (parametersOf this appConfigJson))]))"

text \<open>Property access: \<^verbatim>\<open>obj[key]\<close>, \<^verbatim>\<open>undefined\<close> when there is no such property.\<close>

fun getField :: "string \<Rightarrow> jsvalue \<Rightarrow> jsvalue" where
  "getField key (JObject kvs) = (case map_of kvs key of None \<Rightarrow> JUndefined | Some v \<Rightarrow> v)"
| "getField key v = JUndefined"


fun getPath :: "string list \<Rightarrow> jsvalue \<Rightarrow> jsvalue" where
  "getPath [] v = v"
| "getPath (key # keys) v = getPath keys (getField key v)"

subsection \<open>Example inputs\<close>

text \<open>
  The factory methods of \<^verbatim>\<open>TaskInput\<close> that the tests use: \<^verbatim>\<open>fromText\<close> wraps a string,
  \<^verbatim>\<open>fromJsonPathAt\<close> wraps the token of a path, \<^verbatim>\<open>fromObject\<close> wraps an object or array.
\<close>

definition fromText :: "string \<Rightarrow> TaskInput" where
  "fromText s = \<lparr>input_type = TEXT, input_value = JString s\<rparr>"

definition fromJsonPathAt :: "string \<Rightarrow> TaskInput" where
  "fromJsonPathAt p = \<lparr>input_type = TEXT, input_value = JsonPathToken (''<token '' @ p @ ''>'') p\<rparr>"

definition fromObject :: "jsvalue \<Rightarrow> TaskInput" where
  "fromObject v = \<lparr>input_type = OBJECT, input_value = v\<rparr>"

text \<open>
  The example specification: a literal cluster identifier, a caller-supplied execution
  role, a literal entry point, the mode left to its default, nothing else.
\<close>

definition exampleRole :: IRole where
  "exampleRole = \<lparr>roleArn = ''arn:aws:iam::123456789012:role/job-execution'', grants = []\<rparr>"

definition exampleDriver :: SparkSubmitJobDriver where
  "exampleDriver =
     \<lparr>entryPoint = fromText ''local:///usr/lib/spark/examples/src/main/python/pi.py'',
      entryPointArguments = None,
      sparkSubmitParameters = None\<rparr>"

definition exampleProps :: EmrContainersStartJobRunProps where
  "exampleProps =
     \<lparr>integrationPattern = None,
      virtualClusterId = fromText ''x01f27i9a7cv1td52keaktr6j'',
      jobName = None,
      executionRole = Some exampleRole,
      releaseLabel = ''emr-6.2.0-latest'',
      applicationConfig = None,
      jobDriver = \<lparr>sparkSubmitJobDriver = Some exampleDriver\<rparr>,
      monitoring = None,
      tags = None\<rparr>"

definition withEntryPoint :: "TaskInput \<Rightarrow> EmrContainersStartJobRunProps \<Rightarrow> EmrContainersStartJobRunProps" where
  "withEntryPoint e p =
     p\<lparr>jobDriver := \<lparr>sparkSubmitJobDriver = Some (exampleDriver\<lparr>entryPoint := e\<rparr>)\<rparr>\<rparr>"

definition withEntryPointArguments ::
  "TaskInput \<Rightarrow> EmrContainersStartJobRunProps \<Rightarrow> EmrContainersStartJobRunProps" where
  "withEntryPointArguments a p =
     p\<lparr>jobDriver := \<lparr>sparkSubmitJobDriver = Some (exampleDriver\<lparr>entryPointArguments := Some a\<rparr>)\<rparr>\<rparr>"

text \<open>
  Specifications that break several rules at once: the callback mode with an empty entry
  point and no role for a referenced cluster; the synchronous mode for
  \<^verbatim>\<open>CreateVirtualCluster\<close>; no role for a referenced cluster, with a valid and with an
  empty entry point.
\<close>

definition invalidEverywhere :: EmrContainersStartJobRunProps where
  "invalidEverywhere =
     (withEntryPoint (fromText []) exampleProps)
       \<lparr>integrationPattern := Some WAIT_FOR_TASK_TOKEN,
        executionRole := None,
        virtualClusterId := fromJsonPathAt ''$.ClusterId''\<rparr>"

definition cvcExample :: EmrContainersCreateVirtualClusterProps where
  "cvcExample =
     \<lparr>cvc_integrationPattern = Some RUN_JOB, eksCluster = ''test-eks'',
      eksNamespace = Some ''spark'', virtuaClusterName = None, cvc_tags = None\<rparr>"

definition roleMissing :: EmrContainersStartJobRunProps where
  "roleMissing =
     exampleProps\<lparr>executionRole := None, virtualClusterId := fromJsonPathAt ''$.ClusterId''\<rparr>"

definition roleMissingEmptyEntryPoint :: EmrContainersStartJobRunProps where
  "roleMissingEmptyEntryPoint =
     (withEntryPoint (fromText []) exampleProps)
       \<lparr>executionRole := None, virtualClusterId := fromJsonPathAt ''$.ClusterId''\<rparr>"

text \<open>
  The size the spec speaks of for the entry-point arguments ("measured as serialized
  size, not element count"), following the spec's words and not the source: the length of
  the array written out as text, the elements quoted and separated by commas, between
  brackets. No function of the source computes it.
\<close>

definition serializedText_spec :: "jsvalue list \<Rightarrow> string" where
  "serializedText_spec xs =
     ''['' @ joinWith '','' (map (\<lambda>x. [CHR 0x22] @ js_toString x @ [CHR 0x22]) xs) @ '']''"

definition serializedSize_spec :: "jsvalue list \<Rightarrow> nat" where
  "serializedSize_spec xs = length (serializedText_spec xs)"

text \<open>One argument of 10281 characters.\<close>

definition longArgument :: "jsvalue list" where
  "longArgument = [JString (replicate 10281 CHR ''a'')]"

text \<open>
  The task of the example specification, the same task for the cluster identifier
  \<^verbatim>\<open>$.ClusterId\<close>, and the document the example task renders to; then the same with two
  tags.
\<close>

definition exampleTask :: EmrContainersStartJobRun where
  "exampleTask =
     \<lparr>props = exampleProps, this_integrationPattern = RUN_JOB,
      this_logGroup = None, this_logBucket = None,
      role = exampleRole\<lparr>grants := [AddToPrincipalPolicy logsStatement]\<rparr>,
      taskPolicies =
        [\<lparr>resources = [virtualClustersArn (JString ''x01f27i9a7cv1td52keaktr6j'')],
          actions = [''emr-containers:StartJobRun''],
          conditions =
            Some [(''StringEquals'',
                   [(''emr-containers:ExecutionRoleArn'',
                     ''arn:aws:iam::123456789012:role/job-execution'')])]\<rparr>,
         \<lparr>resources = [virtualClustersArn (JString ''x01f27i9a7cv1td52keaktr6j/jobruns/*'')],
          actions = [''emr-containers:DescribeJobRun'', ''emr-containers:CancelJobRun''],
          conditions = None\<rparr>]\<rparr>"

definition referenceTask :: EmrContainersStartJobRun where
  "referenceTask =
     exampleTask\<lparr>props := exampleProps\<lparr>virtualClusterId := fromJsonPathAt ''$.ClusterId''\<rparr>\<rparr>"


definition taggedProps :: EmrContainersStartJobRunProps where
  "taggedProps = exampleProps\<lparr>tags := Some [(''team'', ''data''), (''env'', ''prod'')]\<rparr>"

definition taggedTask :: EmrContainersStartJobRun where
  "taggedTask = exampleTask\<lparr>props := taggedProps\<rparr>"

definition taggedDocument :: jsvalue where
  "taggedDocument =
     JObject
       [(''Resource'', JString ''arn:<partition>:states:::emr-containers:startJobRun.sync''),
        (''Parameters'',
         JObject
           [(''VirtualClusterId'', JString ''x01f27i9a7cv1td52keaktr6j''),
            (''ExecutionRoleArn'', JString ''arn:aws:iam::123456789012:role/job-execution''),
            (''ReleaseLabel'', JString ''emr-6.2.0-latest''),
            (''JobDriver'',
             JObject
               [(''SparkSubmitJobDriver'',
                 JObject
                   [(''EntryPoint'',
                     JString ''local:///usr/lib/spark/examples/src/main/python/pi.py'')])]),
            (''ConfigurationOverrides'',
             JObject
               [(''MonitoringConfiguration'',
                 JObject [(''PersistentAppUI'', JString ''ENABLED'')]),
                (''Tags'',
                 JObject
                   [(''Tags'',
                     JArray
                       [JObject [(''Key'', JString ''team''), (''Value'', JString ''data'')],
                        JObject [(''Key'', JString ''env''), (''Value'', JString ''prod'')]])])])])]"

text \<open>
  The levels of a configuration tree: the top-level list and the nested list of every
  node, at any depth.
\<close>

function configLevels :: "ApplicationConfiguration list option \<Rightarrow> ApplicationConfiguration list list" where
  "configLevels None = []"
| "configLevels (Some config) =
     config # concat (map (\<lambda>element. configLevels (nestedConfig element)) config)"
  by pat_completeness auto
termination
proof (relation "measure (size_option (size_list size))")
  show "wf (measure (size_option (size_list (size :: ApplicationConfiguration \<Rightarrow> nat))))"
    by simp
next
  fix config :: "ApplicationConfiguration list" and element
  assume "element \<in> set (config)"
  then have "size element \<le> size_list size config"
    by (simp add: size_list_estimation')
  moreover have "size_option (size_list size) (nestedConfig element) < size element"
    by (cases element) simp
  ultimately show "(nestedConfig element, Some config) \<in> measure (size_option (size_list size))"
    by simp
qed

text \<open>
  The number of properties of a node, and a configuration whose only node has 101 of
  them, under the keys \<^verbatim>\<open>k\<close>, \<^verbatim>\<open>kk\<close>, \<^verbatim>\<open>kkk\<close> and so on.
\<close>

definition propertiesCount :: "ApplicationConfiguration \<Rightarrow> nat" where
  "propertiesCount node = (case properties node of None \<Rightarrow> 0 | Some ps \<Rightarrow> length ps)"

definition manyProperties :: "(string \<times> string) list" where
  "manyProperties = map (\<lambda>n. (replicate n CHR ''k'', ''v'')) [1..<102]"

definition manyPropertiesConfig :: "ApplicationConfiguration list" where
  "manyPropertiesConfig = [ApplicationConfiguration ''spark-defaults'' None (Some manyProperties)]"

section \<open>Properties\<close>

lemmas check_defs = checkApplicationConfig_def checkEntryPoint_def checkEntryPointArgumentsType_def
  checkEntryPointArgumentsLength_def checkSparkSubmitParameters_def checkExecutionRole_def
  validatePatternSupported_def SUPPORTED_INTEGRATION_PATTERNS_def patternOf_def

lemmas example_defs = exampleProps_def exampleDriver_def exampleRole_def fromText_def
  fromJsonPathAt_def fromObject_def withEntryPoint_def withEntryPointArguments_def

subsection \<open>The order of the checks\<close>

lemma firstError_Some_mem: "firstError cs = Some e \<Longrightarrow> Some e \<in> set cs"
  by (induction cs rule: firstError.induct) auto

lemma firstError_None_iff: "firstError cs = None \<longleftrightarrow> (\<forall>c \<in> set cs. c = None)"
  by (induction cs rule: firstError.induct) auto

text \<open>The error of the validation is the error of the first check that fails.\<close>

lemma validation_Some_iff:
  "validation p = Some e \<longleftrightarrow>
     (validatePatternSupported (patternOf p) SUPPORTED_INTEGRATION_PATTERNS = Some e) \<or>
     (validatePatternSupported (patternOf p) SUPPORTED_INTEGRATION_PATTERNS = None \<and>
       (checkApplicationConfig p = Some e \<or> checkApplicationConfig p = None \<and>
       (checkEntryPoint p = Some e \<or> checkEntryPoint p = None \<and>
       (checkEntryPointArgumentsType p = Some e \<or> checkEntryPointArgumentsType p = None \<and>
       (checkEntryPointArgumentsLength p = Some e \<or> checkEntryPointArgumentsLength p = None \<and>
       (checkSparkSubmitParameters p = Some e \<or> checkSparkSubmitParameters p = None \<and>
        checkExecutionRole p = Some e))))))"
  unfolding validation_def
  by (cases "validatePatternSupported (patternOf p) SUPPORTED_INTEGRATION_PATTERNS";
      cases "checkApplicationConfig p"; cases "checkEntryPoint p";
      cases "checkEntryPointArgumentsType p"; cases "checkEntryPointArgumentsLength p";
      cases "checkSparkSubmitParameters p"; cases "checkExecutionRole p"; simp)

lemma gate_first:
  "validatePatternSupported (patternOf p) SUPPORTED_INTEGRATION_PATTERNS = Some e
     \<Longrightarrow> validation p = Some e"
  by (simp add: validation_def)

text \<open>
  What the constructor returns: the error of the validation; or, with no execution role
  given, the \<open>TypeError\<close> of \<^verbatim>\<open>createJobExecutionRole\<close>; or the task.
\<close>

lemma new_Inl_iff:
  "newEmrContainersStartJobRun p = Inl e \<longleftrightarrow>
     validation p = Some e \<or>
     (validation p = None \<and> executionRole p = None \<and>
      e = TypeError ''Cannot read property addToPrincipalPolicy of undefined'')"
  by (cases "validation p"; cases "executionRole p")
     (auto simp: newEmrContainersStartJobRun_def createJobExecutionRole_def
        grantMonitoringPolicies_def Let_def)

lemma new_Inr_iff:
  "newEmrContainersStartJobRun p = Inr t \<longleftrightarrow>
     validation p = None \<and>
     (\<exists>r. executionRole p = Some r \<and>
        t = \<lparr>props = p, this_integrationPattern = patternOf p,
             this_logGroup = logGroupOf (monitoring p),
             this_logBucket = logBucketOf (monitoring p),
             role = r\<lparr>grants := grants r
                       @ (case logBucketOf (monitoring p) of None \<Rightarrow> [] | Some b \<Rightarrow> [GrantReadWrite b])
                       @ [AddToPrincipalPolicy logsStatement]\<rparr>,
             taskPolicies =
               createPolicyStatements
                 \<lparr>props = p, this_integrationPattern = patternOf p,
                  this_logGroup = logGroupOf (monitoring p),
                  this_logBucket = logBucketOf (monitoring p),
                  role = r\<lparr>grants := grants r
                       @ (case logBucketOf (monitoring p) of None \<Rightarrow> [] | Some b \<Rightarrow> [GrantReadWrite b])
                       @ [AddToPrincipalPolicy logsStatement]\<rparr>,
                  taskPolicies = []\<rparr>\<rparr>)"
  by (cases "validation p"; cases "executionRole p")
     (auto simp: newEmrContainersStartJobRun_def createJobExecutionRole_def
        grantMonitoringPolicies_def Let_def)

subsection \<open>Which error each check can throw\<close>

lemma validateAppConfigPropertiesLength_error:
  "validateAppConfigPropertiesLength c = Some e \<Longrightarrow> \<exists>v. e = AppConfigPropertiesLength v"
  by (auto simp: validateAppConfigPropertiesLength_def split: option.splits if_splits)

lemma validateAppConfigLength_error:
  "validateAppConfigLength cfg = Some e
     \<Longrightarrow> (\<exists>n. e = AppConfigArrayLength n) \<or> (\<exists>v. e = AppConfigPropertiesLength v)"
proof (induction cfg rule: validateAppConfigLength.induct)
  case 1
  then show ?case by simp
next
  case (2 config)
  show ?case
  proof (cases "length config > 100")
    case True
    with "2.prems" show ?thesis by auto
  next
    case False
    with "2.prems" have "Some e \<in> set (map validateAppConfigPropertiesLength config)
        \<or> Some e \<in> set (map (\<lambda>element. validateAppConfigLength (nestedConfig element)) config)"
      using firstError_Some_mem by fastforce
    then show ?thesis
    proof
      assume "Some e \<in> set (map validateAppConfigPropertiesLength config)"
      then obtain c where "validateAppConfigPropertiesLength c = Some e" by auto
      then show ?thesis using validateAppConfigPropertiesLength_error by blast
    next
      assume "Some e \<in> set (map (\<lambda>element. validateAppConfigLength (nestedConfig element)) config)"
      then obtain element where "element \<in> set config"
        and "validateAppConfigLength (nestedConfig element) = Some e" by auto
      with "2.IH" False show ?thesis by blast
    qed
  qed
qed

lemma checkApplicationConfig_error:
  "checkApplicationConfig p = Some e
     \<Longrightarrow> (\<exists>n. e = AppConfigArrayLength n) \<or> (\<exists>v. e = AppConfigPropertiesLength v)"
proof -
  assume a: "checkApplicationConfig p = Some e"
  then have "validateAppConfigLength (applicationConfig p) = Some e"
    unfolding checkApplicationConfig_def by (cases "applicationConfig p = None") simp_all
  then show ?thesis by (rule validateAppConfigLength_error)
qed

lemma validatePatternSupported_error:
  "validatePatternSupported m ms = Some e \<Longrightarrow> e = UnsupportedPattern ms m"
  by (auto simp: validatePatternSupported_def split: if_splits)

lemma checkEntryPoint_error:
  "checkEntryPoint p = Some e \<Longrightarrow> \<exists>n. e = EntryPointLength n"
  by (auto simp: checkEntryPoint_def Let_def split: option.splits if_splits)

lemma checkEntryPointArgumentsType_error:
  "checkEntryPointArgumentsType p = Some e \<Longrightarrow> \<exists>t. e = EntryPointArgumentsType t"
  by (auto simp: checkEntryPointArgumentsType_def split: option.splits if_splits)

lemma checkEntryPointArgumentsLength_error:
  "checkEntryPointArgumentsLength p = Some e \<Longrightarrow> \<exists>n. e = EntryPointArgumentsLength n"
  by (auto simp: checkEntryPointArgumentsLength_def Let_def split: option.splits if_splits)

lemma checkSparkSubmitParameters_error:
  "checkSparkSubmitParameters p = Some e \<Longrightarrow> \<exists>n. e = SparkSubmitParametersLength n"
  by (auto simp: checkSparkSubmitParameters_def split: option.splits if_splits)

lemma checkExecutionRole_error:
  "checkExecutionRole p = Some e \<Longrightarrow> e = ExecutionRoleUndefined"
  by (auto simp: checkExecutionRole_def split: if_splits)

lemma validation_entryPoint:
  "validation p = Some (EntryPointLength n) \<longleftrightarrow>
     validatePatternSupported (patternOf p) SUPPORTED_INTEGRATION_PATTERNS = None
     \<and> checkApplicationConfig p = None
     \<and> checkEntryPoint p = Some (EntryPointLength n)"
  unfolding validation_Some_iff
  using validatePatternSupported_error [of "patternOf p" SUPPORTED_INTEGRATION_PATTERNS "EntryPointLength n"]
    checkApplicationConfig_error [of p "EntryPointLength n"]
    checkEntryPointArgumentsType_error [of p "EntryPointLength n"]
    checkEntryPointArgumentsLength_error [of p "EntryPointLength n"]
    checkSparkSubmitParameters_error [of p "EntryPointLength n"]
    checkExecutionRole_error [of p "EntryPointLength n"]
  by auto

lemma new_entryPoint_error:
  "newEmrContainersStartJobRun p = Inl (EntryPointLength n) \<longleftrightarrow>
     validatePatternSupported (patternOf p) SUPPORTED_INTEGRATION_PATTERNS = None
     \<and> checkApplicationConfig p = None
     \<and> checkEntryPoint p = Some (EntryPointLength n)"
  by (simp add: new_Inl_iff validation_entryPoint)

subsection \<open>The integration-pattern gate comes first\<close>

text \<open>
  Claim C5. For every specification and every requested execution mode that is not in
  the supported set of the task type, the constructor fails with the unsupported-mode
  error, whatever the other fields are: the gate runs before every field check, so its
  error takes precedence over the length, type and missing-execution-role errors. This
  holds for \<^verbatim>\<open>EmrContainersStartJobRun\<close> and for \<^verbatim>\<open>EmrContainersCreateVirtualCluster\<close>.
\<close>

theorem unsupported_pattern_takes_precedence:
  "(patternOf p \<notin> set SUPPORTED_INTEGRATION_PATTERNS \<longrightarrow>
      newEmrContainersStartJobRun p
        = Inl (UnsupportedPattern SUPPORTED_INTEGRATION_PATTERNS (patternOf p)))
   \<and> ((case cvc_integrationPattern q of None \<Rightarrow> REQUEST_RESPONSE | Some m \<Rightarrow> m)
          \<notin> set CVC_SUPPORTED_INTEGRATION_PATTERNS \<longrightarrow>
      newEmrContainersCreateVirtualCluster q
        = Inl (UnsupportedPattern CVC_SUPPORTED_INTEGRATION_PATTERNS
                 (case cvc_integrationPattern q of None \<Rightarrow> REQUEST_RESPONSE | Some m \<Rightarrow> m)))"
proof (intro conjI impI)
  assume "patternOf p \<notin> set SUPPORTED_INTEGRATION_PATTERNS"
  then have "validatePatternSupported (patternOf p) SUPPORTED_INTEGRATION_PATTERNS
               = Some (UnsupportedPattern SUPPORTED_INTEGRATION_PATTERNS (patternOf p))"
    by (simp add: validatePatternSupported_def)
  then show "newEmrContainersStartJobRun p
               = Inl (UnsupportedPattern SUPPORTED_INTEGRATION_PATTERNS (patternOf p))"
    by (simp add: new_Inl_iff gate_first)
next
  assume "(case cvc_integrationPattern q of None \<Rightarrow> REQUEST_RESPONSE | Some m \<Rightarrow> m)
            \<notin> set CVC_SUPPORTED_INTEGRATION_PATTERNS"
  then show "newEmrContainersCreateVirtualCluster q
        = Inl (UnsupportedPattern CVC_SUPPORTED_INTEGRATION_PATTERNS
                 (case cvc_integrationPattern q of None \<Rightarrow> REQUEST_RESPONSE | Some m \<Rightarrow> m))"
    by (simp add: newEmrContainersCreateVirtualCluster_def validatePatternSupported_def Let_def)
qed

text \<open>
  A specification with the callback mode, an empty entry point, no execution role and a
  runtime reference as cluster identifier: the entry-point check and the execution-role
  check would both fail, and the constructor fails with the unsupported-mode error.
\<close>

theorem unsupported_pattern_takes_precedence_witness:
  "patternOf invalidEverywhere \<notin> set SUPPORTED_INTEGRATION_PATTERNS
   \<and> checkEntryPoint invalidEverywhere = Some (EntryPointLength (Some 0))
   \<and> checkExecutionRole invalidEverywhere = Some ExecutionRoleUndefined
   \<and> newEmrContainersStartJobRun invalidEverywhere
       = Inl (UnsupportedPattern [REQUEST_RESPONSE, RUN_JOB] WAIT_FOR_TASK_TOKEN)
   \<and> newEmrContainersCreateVirtualCluster cvcExample
       = Inl (UnsupportedPattern [REQUEST_RESPONSE] RUN_JOB)"
  using unsupported_pattern_takes_precedence [of invalidEverywhere cvcExample]
  by (simp add: invalidEverywhere_def cvcExample_def check_defs example_defs
        CVC_SUPPORTED_INTEGRATION_PATTERNS_def length_lt_def length_gt_def)

subsection \<open>The entry point\<close>

text \<open>
  Claim C6. For every specification whose entry point is present and is a literal
  string, the entry-point check fails, with the length error that reports the string's
  length, if and only if that length is 0 or greater than 256, and succeeds for lengths
  from 1 to 256; the constructor throws that error exactly when, in addition, the two
  checks that run before it (the gate and the application configuration) pass. A
  runtime-resolved reference is accepted without any bound check.
\<close>

theorem entryPoint_length_rule:
  assumes "sparkSubmitJobDriver (jobDriver p) = Some d"
  shows "(\<forall>s. input_value (entryPoint d) = JString s \<longrightarrow>
            checkEntryPoint p =
              (if length s = 0 \<or> 256 < length s
               then Some (EntryPointLength (Some (length s))) else None)
            \<and> (newEmrContainersStartJobRun p = Inl (EntryPointLength (Some (length s))))
                 = (validatePatternSupported (patternOf p) SUPPORTED_INTEGRATION_PATTERNS = None
                    \<and> checkApplicationConfig p = None
                    \<and> (length s = 0 \<or> 256 < length s)))
       \<and> (\<forall>tok path. input_value (entryPoint d) = JsonPathToken tok path \<longrightarrow>
            checkEntryPoint p = None
            \<and> (\<forall>n. newEmrContainersStartJobRun p \<noteq> Inl (EntryPointLength n)))"
proof (intro conjI allI impI)
  fix s assume lit: "input_value (entryPoint d) = JString s"
  show rule: "checkEntryPoint p =
          (if length s = 0 \<or> 256 < length s
           then Some (EntryPointLength (Some (length s))) else None)"
    using assms lit by (simp add: checkEntryPoint_def length_gt_def length_lt_def)
  show "(newEmrContainersStartJobRun p = Inl (EntryPointLength (Some (length s))))
          = (validatePatternSupported (patternOf p) SUPPORTED_INTEGRATION_PATTERNS = None
             \<and> checkApplicationConfig p = None
             \<and> (length s = 0 \<or> 256 < length s))"
    by (simp add: new_entryPoint_error rule)
next
  fix tok path assume ref: "input_value (entryPoint d) = JsonPathToken tok path"
  show none: "checkEntryPoint p = None"
    using assms ref by (simp add: checkEntryPoint_def)
  fix n
  show "newEmrContainersStartJobRun p \<noteq> Inl (EntryPointLength n)"
    by (simp add: new_entryPoint_error none)
qed

text \<open>
  The empty entry point makes the constructor fail; 257 characters fail the check, 256
  pass it, and a runtime reference passes it.
\<close>

theorem entryPoint_length_rule_witness:
  "newEmrContainersStartJobRun (withEntryPoint (fromText []) exampleProps)
     = Inl (EntryPointLength (Some 0))
   \<and> checkEntryPoint (withEntryPoint (fromText (replicate 257 CHR ''a'')) exampleProps)
     = Some (EntryPointLength (Some 257))
   \<and> checkEntryPoint (withEntryPoint (fromText (replicate 256 CHR ''a'')) exampleProps) = None
   \<and> checkEntryPoint (withEntryPoint (fromJsonPathAt ''$.entry'') exampleProps) = None"
proof -
  have d: "\<And>e. sparkSubmitJobDriver (jobDriver (withEntryPoint e exampleProps))
             = Some (exampleDriver\<lparr>entryPoint := e\<rparr>)"
    by (simp add: withEntryPoint_def)
  have ok: "validatePatternSupported (patternOf (withEntryPoint (fromText []) exampleProps))
              SUPPORTED_INTEGRATION_PATTERNS = None
            \<and> checkApplicationConfig (withEntryPoint (fromText []) exampleProps) = None"
    by (simp add: check_defs example_defs)
  show ?thesis
    using entryPoint_length_rule [OF d, of "fromText []"] ok
      entryPoint_length_rule [OF d, of "fromText (replicate 257 CHR ''a'')"]
      entryPoint_length_rule [OF d, of "fromText (replicate 256 CHR ''a'')"]
      entryPoint_length_rule [OF d, of "fromJsonPathAt ''$.entry''"]
    by (simp add: fromText_def fromJsonPathAt_def)
qed

subsection \<open>The execution role\<close>

lemma validation_executionRole:
  "validation p = Some ExecutionRoleUndefined \<longleftrightarrow>
     validatePatternSupported (patternOf p) SUPPORTED_INTEGRATION_PATTERNS = None
     \<and> checkApplicationConfig p = None
     \<and> checkEntryPoint p = None
     \<and> checkEntryPointArgumentsType p = None
     \<and> checkEntryPointArgumentsLength p = None
     \<and> checkSparkSubmitParameters p = None
     \<and> checkExecutionRole p = Some ExecutionRoleUndefined"
  unfolding validation_Some_iff
  using validatePatternSupported_error [of "patternOf p" SUPPORTED_INTEGRATION_PATTERNS ExecutionRoleUndefined]
    checkApplicationConfig_error [of p ExecutionRoleUndefined]
    checkEntryPoint_error [of p ExecutionRoleUndefined]
    checkEntryPointArgumentsType_error [of p ExecutionRoleUndefined]
    checkEntryPointArgumentsLength_error [of p ExecutionRoleUndefined]
    checkSparkSubmitParameters_error [of p ExecutionRoleUndefined]
  by auto

text \<open>
  When the execution-role check fails, the validation fails with the error of the first
  check that fails, in the order of the constructor, and with the error of the
  execution-role check when no earlier check fails.
\<close>

lemma validation_when_role_check_fails:
  assumes "checkExecutionRole p = Some ExecutionRoleUndefined"
  shows "validation p =
     Some (case validatePatternSupported (patternOf p) SUPPORTED_INTEGRATION_PATTERNS of
             Some e \<Rightarrow> e
           | None \<Rightarrow>
          (case checkApplicationConfig p of
             Some e \<Rightarrow> e
           | None \<Rightarrow>
          (case checkEntryPoint p of
             Some e \<Rightarrow> e
           | None \<Rightarrow>
          (case checkEntryPointArgumentsType p of
             Some e \<Rightarrow> e
           | None \<Rightarrow>
          (case checkEntryPointArgumentsLength p of
             Some e \<Rightarrow> e
           | None \<Rightarrow>
          (case checkSparkSubmitParameters p of
             Some e \<Rightarrow> e
           | None \<Rightarrow> ExecutionRoleUndefined))))))"
  unfolding validation_def using assms
  by (cases "validatePatternSupported (patternOf p) SUPPORTED_INTEGRATION_PATTERNS";
      cases "checkApplicationConfig p"; cases "checkEntryPoint p";
      cases "checkEntryPointArgumentsType p"; cases "checkEntryPointArgumentsLength p";
      cases "checkSparkSubmitParameters p"; simp)

text \<open>
  Claim C7, as stated, fails: with no execution role and a runtime reference as cluster
  identifier, validation does not fail with the missing-execution-role error regardless
  of the other fields. Here the entry point is empty as well, and the constructor throws
  the entry-point length error, whose check runs earlier.
\<close>

theorem executionRole_counterexample:
  "executionRole roleMissingEmptyEntryPoint = None
   \<and> isEncodedJsonPath (input_value (virtualClusterId roleMissingEmptyEntryPoint))
   \<and> patternOf roleMissingEmptyEntryPoint = RUN_JOB
   \<and> newEmrContainersStartJobRun roleMissingEmptyEntryPoint = Inl (EntryPointLength (Some 0))
   \<and> newEmrContainersStartJobRun roleMissingEmptyEntryPoint \<noteq> Inl ExecutionRoleUndefined"
proof -
  have "validation roleMissingEmptyEntryPoint = Some (EntryPointLength (Some 0))"
    by (simp add: validation_def roleMissingEmptyEntryPoint_def check_defs example_defs
          length_lt_def length_gt_def)
  then have "newEmrContainersStartJobRun roleMissingEmptyEntryPoint = Inl (EntryPointLength (Some 0))"
    by (simp add: new_Inl_iff)
  then show ?thesis
    by (simp add: roleMissingEmptyEntryPoint_def example_defs patternOf_def)
qed

text \<open>
  Claim C7, amended. The execution-role check looks at two fields only: it fails, with
  the missing-execution-role error, exactly when the execution role is absent and the
  cluster identifier is a runtime-resolved reference, and passes if the identifier is a
  literal or a role is supplied. For every specification on which it fails the
  constructor fails, and the error it throws is the error of the first check that fails,
  in the order in which the constructor runs them: the gate, the application
  configuration, the entry point, the type and the length of the entry-point arguments,
  the spark-submit parameters, and last the execution role. So it throws the
  missing-execution-role error exactly when the gate and the field checks that run
  before the execution-role check all pass.
\<close>

theorem executionRole_rule:
  "checkExecutionRole p =
     (if executionRole p = None \<and> isEncodedJsonPath (input_value (virtualClusterId p))
      then Some ExecutionRoleUndefined else None)
   \<and> (executionRole p = None \<and> isEncodedJsonPath (input_value (virtualClusterId p)) \<longrightarrow>
        newEmrContainersStartJobRun p =
          Inl (case validatePatternSupported (patternOf p) SUPPORTED_INTEGRATION_PATTERNS of
                 Some e \<Rightarrow> e
               | None \<Rightarrow>
              (case checkApplicationConfig p of
                 Some e \<Rightarrow> e
               | None \<Rightarrow>
              (case checkEntryPoint p of
                 Some e \<Rightarrow> e
               | None \<Rightarrow>
              (case checkEntryPointArgumentsType p of
                 Some e \<Rightarrow> e
               | None \<Rightarrow>
              (case checkEntryPointArgumentsLength p of
                 Some e \<Rightarrow> e
               | None \<Rightarrow>
              (case checkSparkSubmitParameters p of
                 Some e \<Rightarrow> e
               | None \<Rightarrow> ExecutionRoleUndefined))))))
        \<and> (newEmrContainersStartJobRun p = Inl ExecutionRoleUndefined)
            = (validatePatternSupported (patternOf p) SUPPORTED_INTEGRATION_PATTERNS = None
               \<and> checkApplicationConfig p = None
               \<and> checkEntryPoint p = None
               \<and> checkEntryPointArgumentsType p = None
               \<and> checkEntryPointArgumentsLength p = None
               \<and> checkSparkSubmitParameters p = None))"
proof (intro conjI impI)
  show rule: "checkExecutionRole p =
     (if executionRole p = None \<and> isEncodedJsonPath (input_value (virtualClusterId p))
      then Some ExecutionRoleUndefined else None)"
    by (simp add: checkExecutionRole_def)
  assume missing: "executionRole p = None \<and> isEncodedJsonPath (input_value (virtualClusterId p))"
  then have fails: "checkExecutionRole p = Some ExecutionRoleUndefined"
    by (simp add: rule)
  show "newEmrContainersStartJobRun p =
          Inl (case validatePatternSupported (patternOf p) SUPPORTED_INTEGRATION_PATTERNS of
                 Some e \<Rightarrow> e
               | None \<Rightarrow>
              (case checkApplicationConfig p of
                 Some e \<Rightarrow> e
               | None \<Rightarrow>
              (case checkEntryPoint p of
                 Some e \<Rightarrow> e
               | None \<Rightarrow>
              (case checkEntryPointArgumentsType p of
                 Some e \<Rightarrow> e
               | None \<Rightarrow>
              (case checkEntryPointArgumentsLength p of
                 Some e \<Rightarrow> e
               | None \<Rightarrow>
              (case checkSparkSubmitParameters p of
                 Some e \<Rightarrow> e
               | None \<Rightarrow> ExecutionRoleUndefined))))))"
    using validation_when_role_check_fails [OF fails] by (simp add: new_Inl_iff)
  show "(newEmrContainersStartJobRun p = Inl ExecutionRoleUndefined)
            = (validatePatternSupported (patternOf p) SUPPORTED_INTEGRATION_PATTERNS = None
               \<and> checkApplicationConfig p = None
               \<and> checkEntryPoint p = None
               \<and> checkEntryPointArgumentsType p = None
               \<and> checkEntryPointArgumentsLength p = None
               \<and> checkSparkSubmitParameters p = None)"
    by (simp add: new_Inl_iff validation_executionRole fails)
qed

text \<open>
  With valid other fields the constructor throws the missing-execution-role error; with
  an empty entry point it throws the entry-point length error, and with an unsupported
  mode as well the unsupported-mode error. With a literal identifier, or with a role,
  the check passes.
\<close>

theorem executionRole_rule_witness:
  "executionRole roleMissing = None
   \<and> isEncodedJsonPath (input_value (virtualClusterId roleMissing))
   \<and> newEmrContainersStartJobRun roleMissing = Inl ExecutionRoleUndefined
   \<and> executionRole roleMissingEmptyEntryPoint = None
   \<and> isEncodedJsonPath (input_value (virtualClusterId roleMissingEmptyEntryPoint))
   \<and> newEmrContainersStartJobRun roleMissingEmptyEntryPoint = Inl (EntryPointLength (Some 0))
   \<and> executionRole invalidEverywhere = None
   \<and> isEncodedJsonPath (input_value (virtualClusterId invalidEverywhere))
   \<and> newEmrContainersStartJobRun invalidEverywhere
       = Inl (UnsupportedPattern [REQUEST_RESPONSE, RUN_JOB] WAIT_FOR_TASK_TOKEN)
   \<and> checkExecutionRole exampleProps = None
   \<and> checkExecutionRole (exampleProps\<lparr>executionRole := None\<rparr>) = None"
proof -
  have pass: "validatePatternSupported (patternOf roleMissing) SUPPORTED_INTEGRATION_PATTERNS = None
      \<and> checkApplicationConfig roleMissing = None
      \<and> checkEntryPoint roleMissing = None
      \<and> checkEntryPointArgumentsType roleMissing = None
      \<and> checkEntryPointArgumentsLength roleMissing = None
      \<and> checkSparkSubmitParameters roleMissing = None"
    by (simp add: roleMissing_def check_defs example_defs length_lt_def length_gt_def)
  have early: "validatePatternSupported (patternOf roleMissingEmptyEntryPoint)
                 SUPPORTED_INTEGRATION_PATTERNS = None
      \<and> checkApplicationConfig roleMissingEmptyEntryPoint = None
      \<and> checkEntryPoint roleMissingEmptyEntryPoint = Some (EntryPointLength (Some 0))"
    by (simp add: roleMissingEmptyEntryPoint_def check_defs example_defs length_lt_def length_gt_def)
  have gate: "validatePatternSupported (patternOf invalidEverywhere) SUPPORTED_INTEGRATION_PATTERNS
      = Some (UnsupportedPattern [REQUEST_RESPONSE, RUN_JOB] WAIT_FOR_TASK_TOKEN)"
    by (simp add: invalidEverywhere_def check_defs example_defs)
  have hyp: "executionRole roleMissing = None
      \<and> isEncodedJsonPath (input_value (virtualClusterId roleMissing))
      \<and> executionRole roleMissingEmptyEntryPoint = None
      \<and> isEncodedJsonPath (input_value (virtualClusterId roleMissingEmptyEntryPoint))
      \<and> executionRole invalidEverywhere = None
      \<and> isEncodedJsonPath (input_value (virtualClusterId invalidEverywhere))"
    by (simp add: roleMissing_def roleMissingEmptyEntryPoint_def invalidEverywhere_def example_defs)
  show ?thesis
    using executionRole_rule [of roleMissing] executionRole_rule [of roleMissingEmptyEntryPoint]
      executionRole_rule [of invalidEverywhere] executionRole_rule [of exampleProps]
      executionRole_rule [of "exampleProps\<lparr>executionRole := None\<rparr>"] pass early gate hyp
    by (simp add: example_defs)
qed

subsection \<open>The entry-point arguments\<close>

lemma validation_entryPointArgumentsType:
  "validation p = Some (EntryPointArgumentsType t) \<longleftrightarrow>
     validatePatternSupported (patternOf p) SUPPORTED_INTEGRATION_PATTERNS = None
     \<and> checkApplicationConfig p = None
     \<and> checkEntryPoint p = None
     \<and> checkEntryPointArgumentsType p = Some (EntryPointArgumentsType t)"
  unfolding validation_Some_iff
  using validatePatternSupported_error [of "patternOf p" SUPPORTED_INTEGRATION_PATTERNS "EntryPointArgumentsType t"]
    checkApplicationConfig_error [of p "EntryPointArgumentsType t"]
    checkEntryPoint_error [of p "EntryPointArgumentsType t"]
    checkEntryPointArgumentsLength_error [of p "EntryPointArgumentsType t"]
    checkSparkSubmitParameters_error [of p "EntryPointArgumentsType t"]
    checkExecutionRole_error [of p "EntryPointArgumentsType t"]
  by auto

lemma validation_entryPointArgumentsLength:
  "validation p = Some (EntryPointArgumentsLength n) \<longleftrightarrow>
     validatePatternSupported (patternOf p) SUPPORTED_INTEGRATION_PATTERNS = None
     \<and> checkApplicationConfig p = None
     \<and> checkEntryPoint p = None
     \<and> checkEntryPointArgumentsType p = None
     \<and> checkEntryPointArgumentsLength p = Some (EntryPointArgumentsLength n)"
  unfolding validation_Some_iff
  using validatePatternSupported_error [of "patternOf p" SUPPORTED_INTEGRATION_PATTERNS "EntryPointArgumentsLength n"]
    checkApplicationConfig_error [of p "EntryPointArgumentsLength n"]
    checkEntryPoint_error [of p "EntryPointArgumentsLength n"]
    checkEntryPointArgumentsType_error [of p "EntryPointArgumentsLength n"]
    checkSparkSubmitParameters_error [of p "EntryPointArgumentsLength n"]
    checkExecutionRole_error [of p "EntryPointArgumentsLength n"]
  by auto

lemma isArrayOfStrings_JArray:
  "isArrayOfStrings v \<Longrightarrow> \<exists>xs. v = JArray xs \<and> list_all typeof_string xs"
  by (cases v) (simp_all add: isArrayOfStrings_def)

text \<open>
  Claim C2, as stated, fails: the length check does not measure the serialized size. A
  literal array of one string of 10281 characters has a serialized size of 10285, outside
  the range from 1 to 10280, and one element; the length check passes, and so does the
  whole validation.
\<close>

theorem entryPointArguments_counterexample:
  "isArrayOfStrings (JArray longArgument)
   \<and> \<not> isEncodedJsonPath (JArray longArgument)
   \<and> serializedSize_spec longArgument = 10285
   \<and> length longArgument = 1
   \<and> checkEntryPointArgumentsLength
        (withEntryPointArguments (fromObject (JArray longArgument)) exampleProps) = None
   \<and> validation (withEntryPointArguments (fromObject (JArray longArgument)) exampleProps) = None"
  by (simp add: longArgument_def serializedSize_spec_def serializedText_spec_def
        isArrayOfStrings_def validation_def check_defs example_defs length_lt_def length_gt_def)


lemma new_entryPointArguments_errors:
  "(newEmrContainersStartJobRun p = Inl (EntryPointArgumentsType t)) =
     (validatePatternSupported (patternOf p) SUPPORTED_INTEGRATION_PATTERNS = None
      \<and> checkApplicationConfig p = None
      \<and> checkEntryPoint p = None
      \<and> checkEntryPointArgumentsType p = Some (EntryPointArgumentsType t))"
  "(newEmrContainersStartJobRun p = Inl (EntryPointArgumentsLength n)) =
     (validatePatternSupported (patternOf p) SUPPORTED_INTEGRATION_PATTERNS = None
      \<and> checkApplicationConfig p = None
      \<and> checkEntryPoint p = None
      \<and> checkEntryPointArgumentsType p = None
      \<and> checkEntryPointArgumentsLength p = Some (EntryPointArgumentsLength n))"
  by (simp_all add: new_Inl_iff validation_entryPointArgumentsType
        validation_entryPointArgumentsLength)

text \<open>
  Claim C2, amended. For every specification whose entry-point arguments are present and
  are a literal (not a runtime-resolved reference): if the value is an array of strings,
  the type check passes and the length check fails, with the length error that reports
  the number of elements, if and only if the number of elements of the array is outside
  the range from 1 to 10280; if the value is not an array of strings, the type check fails
  with the type error. The constructor throws either error exactly when, in addition, the
  checks that run before it pass.
\<close>

theorem entryPointArguments_rule:
  assumes "sparkSubmitJobDriver (jobDriver p) = Some d"
    and "entryPointArguments d = Some a"
    and "\<not> isEncodedJsonPath (input_value a)"
  shows "(isArrayOfStrings (input_value a) \<longrightarrow>
            checkEntryPointArgumentsType p = None
            \<and> (\<exists>xs. input_value a = JArray xs
                 \<and> checkEntryPointArgumentsLength p =
                     (if length xs < 1 \<or> 10280 < length xs
                      then Some (EntryPointArgumentsLength (Some (length xs))) else None)
                 \<and> (newEmrContainersStartJobRun p = Inl (EntryPointArgumentsLength (Some (length xs))))
                     = (validatePatternSupported (patternOf p) SUPPORTED_INTEGRATION_PATTERNS = None
                        \<and> checkApplicationConfig p = None
                        \<and> checkEntryPoint p = None
                        \<and> (length xs < 1 \<or> 10280 < length xs))))
       \<and> (\<not> isArrayOfStrings (input_value a) \<longrightarrow>
            checkEntryPointArgumentsType p = Some (EntryPointArgumentsType (input_type a))
            \<and> (newEmrContainersStartJobRun p = Inl (EntryPointArgumentsType (input_type a)))
                = (validatePatternSupported (patternOf p) SUPPORTED_INTEGRATION_PATTERNS = None
                   \<and> checkApplicationConfig p = None
                   \<and> checkEntryPoint p = None))"
proof (intro conjI impI)
  assume strs: "isArrayOfStrings (input_value a)"
  show ty: "checkEntryPointArgumentsType p = None"
    using assms strs by (simp add: checkEntryPointArgumentsType_def)
  from strs obtain xs where xs: "input_value a = JArray xs"
    using isArrayOfStrings_JArray by blast
  have len: "checkEntryPointArgumentsLength p =
               (if length xs < 1 \<or> 10280 < length xs
                then Some (EntryPointArgumentsLength (Some (length xs))) else None)"
    using assms xs
    by (simp add: checkEntryPointArgumentsLength_def length_gt_def length_lt_def)
  have "(newEmrContainersStartJobRun p = Inl (EntryPointArgumentsLength (Some (length xs))))
          = (validatePatternSupported (patternOf p) SUPPORTED_INTEGRATION_PATTERNS = None
             \<and> checkApplicationConfig p = None
             \<and> checkEntryPoint p = None
             \<and> (length xs < 1 \<or> 10280 < length xs))"
    by (simp add: new_entryPointArguments_errors ty len)
  with xs len show "\<exists>xs. input_value a = JArray xs
       \<and> checkEntryPointArgumentsLength p =
           (if length xs < 1 \<or> 10280 < length xs
            then Some (EntryPointArgumentsLength (Some (length xs))) else None)
       \<and> (newEmrContainersStartJobRun p = Inl (EntryPointArgumentsLength (Some (length xs))))
           = (validatePatternSupported (patternOf p) SUPPORTED_INTEGRATION_PATTERNS = None
              \<and> checkApplicationConfig p = None
              \<and> checkEntryPoint p = None
              \<and> (length xs < 1 \<or> 10280 < length xs))"
    by blast
next
  assume nstrs: "\<not> isArrayOfStrings (input_value a)"
  show ty: "checkEntryPointArgumentsType p = Some (EntryPointArgumentsType (input_type a))"
    using assms nstrs by (simp add: checkEntryPointArgumentsType_def)
  show "(newEmrContainersStartJobRun p = Inl (EntryPointArgumentsType (input_type a)))
          = (validatePatternSupported (patternOf p) SUPPORTED_INTEGRATION_PATTERNS = None
             \<and> checkApplicationConfig p = None
             \<and> checkEntryPoint p = None)"
    by (simp add: new_entryPointArguments_errors ty)
qed

text \<open>
  The empty array and an array of 10281 strings fail the length check, an array of 10280
  strings passes it, and a string in place of the array is a type error.
\<close>

theorem entryPointArguments_rule_witness:
  "newEmrContainersStartJobRun (withEntryPointArguments (fromObject (JArray [])) exampleProps)
     = Inl (EntryPointArgumentsLength (Some 0))
   \<and> checkEntryPointArgumentsLength
       (withEntryPointArguments (fromObject (JArray (replicate 10281 (JString ''x'')))) exampleProps)
     = Some (EntryPointArgumentsLength (Some 10281))
   \<and> checkEntryPointArgumentsLength
       (withEntryPointArguments (fromObject (JArray (replicate 10280 (JString ''x'')))) exampleProps)
     = None
   \<and> newEmrContainersStartJobRun (withEntryPointArguments (fromText ''--verbose'') exampleProps)
     = Inl (EntryPointArgumentsType TEXT)"
proof -
  have d: "\<And>a. sparkSubmitJobDriver (jobDriver (withEntryPointArguments a exampleProps))
             = Some (exampleDriver\<lparr>entryPointArguments := Some a\<rparr>)"
    by (simp add: withEntryPointArguments_def)
  have a: "\<And>a. entryPointArguments (exampleDriver\<lparr>entryPointArguments := Some a\<rparr>) = Some a"
    by simp
  have ok: "\<And>a. validatePatternSupported (patternOf (withEntryPointArguments a exampleProps))
              SUPPORTED_INTEGRATION_PATTERNS = None
            \<and> checkApplicationConfig (withEntryPointArguments a exampleProps) = None
            \<and> checkEntryPoint (withEntryPointArguments a exampleProps) = None"
    by (simp add: check_defs example_defs length_lt_def length_gt_def)
  have strs: "\<And>n. isArrayOfStrings (JArray (replicate n (JString ''x'')))"
    by (simp add: isArrayOfStrings_def list_all_iff)
  show ?thesis
    using entryPointArguments_rule [OF d a, of "fromObject (JArray [])"]
      entryPointArguments_rule [OF d a, of "fromObject (JArray (replicate 10281 (JString ''x'')))"]
      entryPointArguments_rule [OF d a, of "fromObject (JArray (replicate 10280 (JString ''x'')))"]
      entryPointArguments_rule [OF d a, of "fromText ''--verbose''"]
      ok strs
    by (simp add: fromObject_def fromText_def isArrayOfStrings_def)
qed

subsection \<open>The policy statements\<close>

lemma example_validation: "validation exampleProps = None"
  by (simp add: validation_def check_defs example_defs length_lt_def length_gt_def)

lemma example_compiles: "newEmrContainersStartJobRun exampleProps = Inr exampleTask"
  unfolding new_Inr_iff
  by (simp add: example_validation)
     (simp add: exampleTask_def exampleProps_def exampleRole_def logGroupOf_def logBucketOf_def
        patternOf_def createPolicyStatements_def fromText_def Let_def)

text \<open>
  Claim C1, as stated, fails for the synchronous mode: the example specification (mode
  defaulted to \<^verbatim>\<open>RUN_JOB\<close>, literal cluster identifier) compiles, and its policy
  statements are two, not three: the primary statement and one statement that carries
  both the status-check and the cancel action, on the job runs of the cluster and not on
  the resource of the primary statement.
\<close>

theorem policy_statements_counterexample:
  "newEmrContainersStartJobRun exampleProps = Inr exampleTask
   \<and> this_integrationPattern exampleTask = RUN_JOB
   \<and> createPolicyStatements exampleTask = taskPolicies exampleTask
   \<and> length (createPolicyStatements exampleTask) = 2
   \<and> map actions (createPolicyStatements exampleTask) =
        [[''emr-containers:StartJobRun''],
         [''emr-containers:DescribeJobRun'', ''emr-containers:CancelJobRun'']]
   \<and> map resources (createPolicyStatements exampleTask) =
        [[virtualClustersArn (JString ''x01f27i9a7cv1td52keaktr6j'')],
         [virtualClustersArn (JString ''x01f27i9a7cv1td52keaktr6j/jobruns/*'')]]"
  using example_compiles
  by (simp add: exampleTask_def exampleProps_def exampleRole_def createPolicyStatements_def
        fromText_def Let_def)

text \<open>
  Claim C1, amended. In the fire-and-forget mode (\<^verbatim>\<open>REQUEST_RESPONSE\<close>)
  \<^verbatim>\<open>createPolicyStatements\<close> returns exactly one statement, whose action is
  \<^verbatim>\<open>emr-containers:StartJobRun\<close>. In the synchronous mode (\<^verbatim>\<open>RUN_JOB\<close>) it returns
  that same primary statement followed by exactly one more statement, whose actions are
  \<^verbatim>\<open>emr-containers:DescribeJobRun\<close> and \<^verbatim>\<open>emr-containers:CancelJobRun\<close>, on the job
  runs of the same virtual cluster (\<^verbatim>\<open><id>/jobruns/*\<close>) for a literal identifier and on
  the wildcard for a runtime-resolved reference. Every task the constructor returns is in
  one of these two modes and holds these statements as its task policies.
\<close>

theorem policy_statements_by_mode:
  "(this_integrationPattern t = REQUEST_RESPONSE \<longrightarrow>
      createPolicyStatements t =
        [\<lparr>resources =
            [virtualClustersArn
               (if isEncodedJsonPath (input_value (virtualClusterId (props t))) then JString ''*''
                else input_value (virtualClusterId (props t)))],
          actions = [''emr-containers:StartJobRun''],
          conditions =
            Some [(''StringEquals'', [(''emr-containers:ExecutionRoleArn'', roleArn (role t))])]\<rparr>])
   \<and> (this_integrationPattern t = RUN_JOB \<longrightarrow>
      createPolicyStatements t =
        [\<lparr>resources =
            [virtualClustersArn
               (if isEncodedJsonPath (input_value (virtualClusterId (props t))) then JString ''*''
                else input_value (virtualClusterId (props t)))],
          actions = [''emr-containers:StartJobRun''],
          conditions =
            Some [(''StringEquals'', [(''emr-containers:ExecutionRoleArn'', roleArn (role t))])]\<rparr>,
         \<lparr>resources =
            [virtualClustersArn
               (if isEncodedJsonPath (input_value (virtualClusterId (props t))) then JString ''*''
                else JString (js_toString (input_value (virtualClusterId (props t))) @ ''/jobruns/*''))],
          actions = [''emr-containers:DescribeJobRun'', ''emr-containers:CancelJobRun''],
          conditions = None\<rparr>])
   \<and> (newEmrContainersStartJobRun p = Inr t \<longrightarrow>
        taskPolicies t = createPolicyStatements t
        \<and> (this_integrationPattern t = REQUEST_RESPONSE \<or> this_integrationPattern t = RUN_JOB))"
proof (intro conjI impI)
  assume "newEmrContainersStartJobRun p = Inr t"
  then have v: "validation p = None" and t: "this_integrationPattern t = patternOf p"
    and pol: "taskPolicies t = createPolicyStatements (t\<lparr>taskPolicies := []\<rparr>)"
    by (auto simp: new_Inr_iff)
  show "taskPolicies t = createPolicyStatements t"
    using pol by (simp add: createPolicyStatements_def)
  have "validatePatternSupported (patternOf p) SUPPORTED_INTEGRATION_PATTERNS = None"
    using v by (simp add: validation_def firstError_None_iff)
  then show "this_integrationPattern t = REQUEST_RESPONSE \<or> this_integrationPattern t = RUN_JOB"
    using t by (auto simp: validatePatternSupported_def SUPPORTED_INTEGRATION_PATTERNS_def
        split: if_splits)
qed (simp_all add: createPolicyStatements_def Let_def)

text \<open>The example task in both modes.\<close>

theorem policy_statements_by_mode_witness:
  "createPolicyStatements (exampleTask\<lparr>this_integrationPattern := REQUEST_RESPONSE\<rparr>) =
     [\<lparr>resources = [virtualClustersArn (JString ''x01f27i9a7cv1td52keaktr6j'')],
       actions = [''emr-containers:StartJobRun''],
       conditions =
         Some [(''StringEquals'',
                [(''emr-containers:ExecutionRoleArn'',
                  ''arn:aws:iam::123456789012:role/job-execution'')])]\<rparr>]
   \<and> createPolicyStatements exampleTask = taskPolicies exampleTask
   \<and> length (taskPolicies exampleTask) = 2"
  using policy_statements_by_mode
          [of "exampleTask\<lparr>this_integrationPattern := REQUEST_RESPONSE\<rparr>" exampleProps]
        policy_statements_by_mode [of exampleTask exampleProps] example_compiles
  by (simp add: exampleTask_def exampleProps_def exampleRole_def fromText_def)

text \<open>
  Claim C9. If the virtual-cluster identifier is a runtime-resolved reference, every
  statement that \<^verbatim>\<open>createPolicyStatements\<close> returns has one resource, the ARN that
  \<^verbatim>\<open>formatArn\<close> is asked for with the service \<^verbatim>\<open>emr-containers\<close>, the resource
  \<^verbatim>\<open>/virtualclusters\<close> and the wildcard \<^verbatim>\<open>*\<close> as resource name; if the identifier is a
  literal, the resource of the primary (first) statement has that literal as its
  resource name. The statements of a task the constructor returns are these, for the
  specification it was given.
\<close>

theorem resource_scope:
  "createPolicyStatements t \<noteq> []
   \<and> (isEncodedJsonPath (input_value (virtualClusterId (props t))) \<longrightarrow>
        (\<forall>s \<in> set (createPolicyStatements t).
           resources s =
             [FormatArn \<lparr>arn_service = ''emr-containers'', arn_region = None,
                         arn_resource = ''/virtualclusters'',
                         arn_resourceName = JString ''*''\<rparr>]))
   \<and> (\<not> isEncodedJsonPath (input_value (virtualClusterId (props t))) \<longrightarrow>
        resources (hd (createPolicyStatements t)) =
          [FormatArn \<lparr>arn_service = ''emr-containers'', arn_region = None,
                      arn_resource = ''/virtualclusters'',
                      arn_resourceName = input_value (virtualClusterId (props t))\<rparr>])
   \<and> (newEmrContainersStartJobRun p = Inr t \<longrightarrow>
        props t = p \<and> taskPolicies t = createPolicyStatements t)"
proof (intro conjI impI)
  assume c: "newEmrContainersStartJobRun p = Inr t"
  then show "props t = p"
    by (auto simp: new_Inr_iff)
  from c have "taskPolicies t = createPolicyStatements (t\<lparr>taskPolicies := []\<rparr>)"
    by (auto simp: new_Inr_iff)
  then show "taskPolicies t = createPolicyStatements t"
    by (simp add: createPolicyStatements_def)
qed (simp_all add: createPolicyStatements_def virtualClustersArn_def Let_def)

text \<open>The example task with \<^verbatim>\<open>$.ClusterId\<close> as identifier, and with its literal one.\<close>

theorem resource_scope_witness:
  "isEncodedJsonPath (input_value (virtualClusterId (props referenceTask)))
   \<and> map resources (createPolicyStatements referenceTask) =
       [[FormatArn \<lparr>arn_service = ''emr-containers'', arn_region = None,
                    arn_resource = ''/virtualclusters'', arn_resourceName = JString ''*''\<rparr>],
        [FormatArn \<lparr>arn_service = ''emr-containers'', arn_region = None,
                    arn_resource = ''/virtualclusters'', arn_resourceName = JString ''*''\<rparr>]]
   \<and> \<not> isEncodedJsonPath (input_value (virtualClusterId (props exampleTask)))
   \<and> newEmrContainersStartJobRun exampleProps = Inr exampleTask
   \<and> resources (hd (taskPolicies exampleTask)) =
       [FormatArn \<lparr>arn_service = ''emr-containers'', arn_region = None,
                   arn_resource = ''/virtualclusters'',
                   arn_resourceName = JString ''x01f27i9a7cv1td52keaktr6j''\<rparr>]"
  using resource_scope [of referenceTask exampleProps] resource_scope [of exampleTask exampleProps]
    example_compiles
  by (simp add: referenceTask_def exampleTask_def exampleProps_def fromJsonPathAt_def
        fromText_def createPolicyStatements_def virtualClustersArn_def Let_def)

text \<open>
  Claim C10. The first statement that \<^verbatim>\<open>createPolicyStatements\<close> returns is the one
  for \<^verbatim>\<open>emr-containers:StartJobRun\<close>, and it always carries the condition
  \<^verbatim>\<open>StringEquals\<close> that binds \<^verbatim>\<open>emr-containers:ExecutionRoleArn\<close> to the ARN of the
  task's role. For a task the constructor returns, these statements are its task
  policies, and the role is the one the constructor assigned: its ARN is that of the
  role the caller supplied.
\<close>

theorem primary_statement_condition:
  "createPolicyStatements t \<noteq> []
   \<and> actions (hd (createPolicyStatements t)) = [''emr-containers:StartJobRun'']
   \<and> conditions (hd (createPolicyStatements t))
       = Some [(''StringEquals'', [(''emr-containers:ExecutionRoleArn'', roleArn (role t))])]
   \<and> (newEmrContainersStartJobRun p = Inr t \<longrightarrow>
        taskPolicies t = createPolicyStatements t
        \<and> (\<forall>r. executionRole p = Some r \<longrightarrow> roleArn (role t) = roleArn r))"
proof (intro conjI impI allI)
  assume c: "newEmrContainersStartJobRun p = Inr t"
  then have pol: "taskPolicies t = createPolicyStatements (t\<lparr>taskPolicies := []\<rparr>)"
    by (auto simp: new_Inr_iff)
  then show "taskPolicies t = createPolicyStatements t"
    by (simp add: createPolicyStatements_def)
  fix r assume "executionRole p = Some r"
  with c show "roleArn (role t) = roleArn r"
    by (auto simp: new_Inr_iff)
qed (simp_all add: createPolicyStatements_def Let_def)

text \<open>The example specification, with its caller-supplied role.\<close>

theorem primary_statement_condition_witness:
  "newEmrContainersStartJobRun exampleProps = Inr exampleTask
   \<and> executionRole exampleProps = Some exampleRole
   \<and> conditions (hd (taskPolicies exampleTask))
       = Some [(''StringEquals'',
                [(''emr-containers:ExecutionRoleArn'', roleArn exampleRole)])]"
  using primary_statement_condition [of exampleTask exampleProps] example_compiles
  by (simp add: exampleProps_def exampleTask_def exampleRole_def)

text \<open>
  With no execution role supplied the constructor never returns a task: either a check
  fails, or \<^verbatim>\<open>createJobExecutionRole\<close> calls \<^verbatim>\<open>grantMonitoringPolicies\<close> before
  \<^verbatim>\<open>this.role\<close> is assigned, which is a \<open>TypeError\<close>.
\<close>
lemma generated_role_never_compiles:
  "executionRole p = None \<Longrightarrow> \<exists>e. newEmrContainersStartJobRun p = Inl e"
  by (cases "validation p") (auto simp: new_Inl_iff)

subsection \<open>The rendered task\<close>

text \<open>The keys an entry can be rendered under: its own, or its own with the suffix.\<close>

lemma renderEntry_renderObject_undefined [simp]: "renderEntry (k, renderObject JUndefined) = []"
  by simp



















subsection \<open>The tags\<close>

lemma tagged_compiles: "newEmrContainersStartJobRun taggedProps = Inr taggedTask"
  unfolding new_Inr_iff
  by (simp add: validation_def check_defs example_defs length_lt_def length_gt_def taggedProps_def)
     (simp add: taggedTask_def taggedProps_def exampleTask_def exampleProps_def exampleRole_def
        exampleDriver_def logGroupOf_def logBucketOf_def patternOf_def createPolicyStatements_def fromText_def Let_def)

text \<open>
  Claim C4 does not hold of the source. For the tags \<^verbatim>\<open>{team: 'data', env: 'prod'}\<close> the
  sequence of \<^verbatim>\<open>{Key, Value}\<close> pairs is in the order of the mapping, but it is not
  directly under the \<^verbatim>\<open>Tags\<close> key: \<^verbatim>\<open>renderTags\<close> returns an object that already has
  the key \<^verbatim>\<open>Tags\<close>, and \<^verbatim>\<open>_renderTask\<close> stores that object under \<^verbatim>\<open>Tags\<close> again.
\<close>

theorem tags_wrapped_twice:
  "tags taggedProps = Some [(''team'', ''data''), (''env'', ''prod'')]
   \<and> newEmrContainersStartJobRun taggedProps = Inr taggedTask
   \<and> renderTask taggedTask = Inr taggedDocument
   \<and> getPath [''Parameters'', ''ConfigurationOverrides'', ''Tags''] taggedDocument
       = JObject
           [(''Tags'',
             JArray
               [JObject [(''Key'', JString ''team''), (''Value'', JString ''data'')],
                JObject [(''Key'', JString ''env''), (''Value'', JString ''prod'')]])]
   \<and> getPath [''Parameters'', ''ConfigurationOverrides'', ''Tags''] taggedDocument
       \<noteq> JArray
           [JObject [(''Key'', JString ''team''), (''Value'', JString ''data'')],
            JObject [(''Key'', JString ''env''), (''Value'', JString ''prod'')]]"
  using tagged_compiles
  by (simp add: renderTask_def listMapper_def parametersOf_def renderTags_def taggedTask_def
        taggedProps_def exampleTask_def exampleProps_def exampleDriver_def exampleRole_def
        fromText_def integrationResourceArn_def optString_def taggedDocument_def Let_def)

subsection \<open>When the renderer returns\<close>

text \<open>
  \<^verbatim>\<open>_renderTask\<close> returns a document exactly when no application configuration of the
  top level carries a \<^verbatim>\<open>nestedConfig\<close>.
\<close>

lemma collect_Inr_iff: "(\<exists>ys. collect rs = Inr ys) \<longleftrightarrow> (\<forall>r \<in> set rs. \<exists>y. r = Inr y)"
  by (induction rs rule: collect.induct) (auto split: sum.splits)

lemma applicationConfigPropertyToJson_Inr_iff:
  "(\<exists>y. applicationConfigPropertyToJson c = Inr y) \<longleftrightarrow> nestedConfig c = None"
  by (cases "nestedConfig c") (simp_all add: applicationConfigPropertyToJson_def)

lemma renderTask_returns:
  "(\<exists>doc. renderTask t = Inr doc) \<longleftrightarrow>
     (case applicationConfig (props t) of
        None \<Rightarrow> True
      | Some cs \<Rightarrow> \<forall>c \<in> set cs. nestedConfig c = None)"
proof (cases "applicationConfig (props t)")
  case None
  then show ?thesis by (simp add: renderTask_def listMapper_def)
next
  case (Some cs)
  have "(\<exists>doc. renderTask t = Inr doc)
          \<longleftrightarrow> (\<exists>ys. collect (map applicationConfigPropertyToJson cs) = Inr ys)"
    using Some by (auto simp: renderTask_def listMapper_def split: sum.splits)
  also have "\<dots> \<longleftrightarrow> (\<forall>c \<in> set cs. nestedConfig c = None)"
    unfolding collect_Inr_iff using applicationConfigPropertyToJson_Inr_iff by auto
  finally show ?thesis using Some by simp
qed


subsection \<open>The application configuration\<close>

text \<open>
  The validation of the application configuration passes exactly when no level of the
  tree, at any depth, has more than 100 entries and no node has more than 100
  properties.
\<close>

lemma validateAppConfigPropertiesLength_None_iff:
  "validateAppConfigPropertiesLength node = None \<longleftrightarrow> propertiesCount node \<le> 100"
  by (auto simp: validateAppConfigPropertiesLength_def propertiesCount_def split: option.splits)

lemma validateAppConfigLength_None_iff:
  "validateAppConfigLength cfg = None \<longleftrightarrow>
     (\<forall>level \<in> set (configLevels cfg).
        length level \<le> 100 \<and> (\<forall>node \<in> set level. propertiesCount node \<le> 100))"
proof (induction cfg rule: validateAppConfigLength.induct)
  case 1
  then show ?case by simp
next
  case (2 config)
  show ?case
  proof (cases "length config > 100")
    case True
    then show ?thesis by auto
  next
    case False
    then have "validateAppConfigLength (Some config) = None \<longleftrightarrow>
        (\<forall>node \<in> set config. validateAppConfigPropertiesLength node = None)
        \<and> (\<forall>node \<in> set config. validateAppConfigLength (nestedConfig node) = None)"
      by (auto simp: firstError_None_iff)
    also have "\<dots> \<longleftrightarrow>
        (\<forall>node \<in> set config. propertiesCount node \<le> 100)
        \<and> (\<forall>node \<in> set config. \<forall>level \<in> set (configLevels (nestedConfig node)).
              length level \<le> 100 \<and> (\<forall>n \<in> set level. propertiesCount n \<le> 100))"
      using "2.IH" False by (simp add: validateAppConfigPropertiesLength_None_iff)
    finally show ?thesis using False by auto
  qed
qed



text \<open>
  A level with more than 100 entries is reported with its size.
\<close>

lemma array_error_with_size:
  "length config > 100 \<Longrightarrow>
     validateAppConfigLength (Some config) = Some (AppConfigArrayLength (length config))"
  by simp

text \<open>The 101 properties of the example: distinct keys, none of them \<^verbatim>\<open>length\<close>.\<close>

lemma manyProperties_length: "length (map fst manyProperties) = 101"
  by (simp add: manyProperties_def)

lemma replicate_k_not_length: "replicate n CHR ''k'' \<noteq> ''length''"
  by (cases n) simp_all

lemma manyProperties_keys: "map fst manyProperties = map (\<lambda>n. replicate n CHR ''k'') [1..<102]"
  unfolding manyProperties_def map_map comp_def fst_conv ..


lemma manyProperties_distinct: "distinct (map fst manyProperties)"
  unfolding manyProperties_keys by (simp add: distinct_map inj_on_def)

lemma manyProperties_no_length_key: "map_of manyProperties ''length'' = None"
proof -
  have eq: "fst ` set manyProperties = set (map fst manyProperties)"
    by (rule set_map [symmetric])
  have "''length'' \<notin> fst ` set manyProperties"
    unfolding eq
  proof
    assume "''length'' \<in> set (map fst manyProperties)"
    then obtain n where "''length'' = replicate n CHR ''k''"
      unfolding manyProperties_keys by auto
    then show False using replicate_k_not_length [of n] by simp
  qed
  then show ?thesis by (rule map_of_eq_None_iff [THEN iffD2])
qed

text \<open>
  Claim C8 does not hold of the source in its last part. A single configuration with 101
  properties fails the validation, as the claim says, but the error does not carry the
  actual size: the message interpolates \<^verbatim>\<open>appConfig.properties.length\<close>, the property
  named \<^verbatim>\<open>length\<close> of the mapping, which is \<^verbatim>\<open>undefined\<close>, where the check itself counts
  \<^verbatim>\<open>Object.keys(appConfig.properties).length\<close>.
\<close>

theorem properties_error_without_size:
  "length (map fst manyProperties) = 101
   \<and> distinct (map fst manyProperties)
   \<and> validateAppConfigLength (Some manyPropertiesConfig)
       = Some (AppConfigPropertiesLength JUndefined)
   \<and> newEmrContainersStartJobRun (exampleProps\<lparr>applicationConfig := Some manyPropertiesConfig\<rparr>)
       = Inl (AppConfigPropertiesLength JUndefined)"
proof -
  have p: "validateAppConfigPropertiesLength
             (ApplicationConfiguration ''spark-defaults'' None (Some manyProperties))
           = Some (AppConfigPropertiesLength JUndefined)"
    unfolding validateAppConfigPropertiesLength_def using manyProperties_length manyProperties_no_length_key by simp
  have v: "validateAppConfigLength (Some manyPropertiesConfig)
       = Some (AppConfigPropertiesLength JUndefined)"
    unfolding manyPropertiesConfig_def using p by simp
  have g: "validatePatternSupported
             (patternOf (exampleProps\<lparr>applicationConfig := Some manyPropertiesConfig\<rparr>))
             SUPPORTED_INTEGRATION_PATTERNS = None"
    by (simp add: validatePatternSupported_def patternOf_def SUPPORTED_INTEGRATION_PATTERNS_def
          exampleProps_def)
  have c: "checkApplicationConfig (exampleProps\<lparr>applicationConfig := Some manyPropertiesConfig\<rparr>)
             = Some (AppConfigPropertiesLength JUndefined)"
    unfolding checkApplicationConfig_def using v by simp
  have "validation (exampleProps\<lparr>applicationConfig := Some manyPropertiesConfig\<rparr>)
       = Some (AppConfigPropertiesLength JUndefined)"
    unfolding validation_def using g c by simp
  then have "newEmrContainersStartJobRun (exampleProps\<lparr>applicationConfig := Some manyPropertiesConfig\<rparr>)
       = Inl (AppConfigPropertiesLength JUndefined)"
    by (simp add: new_Inl_iff)
  with manyProperties_length manyProperties_distinct v show ?thesis by blast
qed

end
